theory Spec2Isabelle
  imports Complex_Main
begin

section \<open>Conventions of the embedding\<close>

text \<open>
  The development embeds the answer-evaluation and progress engine of the vocabulary
  application: \<^verbatim>\<open>lib/vocabulary/progress.ts\<close>, the \<^verbatim>\<open>useProgress\<close> and
  \<^verbatim>\<open>useTopicQuiz\<close> hooks, \<^verbatim>\<open>lib/pronunciationEvaluator.ts\<close> and
  \<^verbatim>\<open>lib/translationChecker.ts\<close>.

  \<^item> A timestamp (milliseconds since the epoch, \<^verbatim>\<open>Date.now()\<close>) is an \<open>int\<close>; every
    function that reads the clock takes the reading as the argument \<open>now\<close>.
  \<^item> The time zone of the host is a \<open>TimeZone\<close>, the offsets from UTC and the instants at
    which they change; every function that reads or sets a local field of a \<^verbatim>\<open>Date\<close>
    takes it as the argument \<open>z\<close>.
  \<^item> A JavaScript string is a \<open>string\<close>; case mapping and character classes are those of
    ASCII.
  \<^item> A JavaScript \<^verbatim>\<open>number\<close> is the rational it denotes. A quotient, a product or a sum
    that the code computes in double precision is rounded to the nearest double, a tie
    going to the even significand (\<open>fl\<close>); the two non-finite results of a division by
    zero are kept as values of their own (\<open>jsnum\<close>).
  \<^item> \<^verbatim>\<open>null\<close> and an absent optional field are \<open>None\<close>.
  \<^item> A React state cell is the value it holds; a functional update
    \<^verbatim>\<open>setState(prev => next)\<close> is the function from \<open>prev\<close> to \<open>next\<close>.
\<close>

section \<open>Numbers\<close>

text \<open>\<^verbatim>\<open>Math.round\<close>: the nearest integer, a tie going up.\<close>

definition Math_round :: "rat \<Rightarrow> int" where
  "Math_round x = \<lfloor>x + 1 / 2\<rfloor>"

text \<open>
  Rounding to double precision. \<open>bit_length n\<close> is the number of binary digits of \<open>n\<close>;
  \<open>binade a\<close> is the exponent \<open>e\<close> with \<open>2 ^ e \<le> a < 2 ^ (e + 1)\<close> of a positive \<open>a\<close>;
  \<open>fl x\<close> is the multiple of \<open>2 ^ (e - 52)\<close> nearest to \<open>x\<close>, a tie going to the even
  multiple: the double nearest to \<open>x\<close>, for \<open>x\<close> in the range of the normal doubles.
\<close>

function bit_length :: "nat \<Rightarrow> nat" where
  "bit_length n = (if n = 0 then 0 else Suc (bit_length (n div 2)))"
  by pat_completeness auto
termination
  by (relation "measure id") auto

declare bit_length.simps [simp del]

definition round_half_even :: "rat \<Rightarrow> int" where
  "round_half_even x =
     (let f = \<lfloor>x\<rfloor>; d = x - of_int f
      in if d < 1 / 2 then f
         else if 1 / 2 < d then f + 1
         else if even f then f else f + 1)"

definition binade :: "rat \<Rightarrow> int" where
  "binade a =
     (if 1 \<le> a then int (bit_length (nat \<lfloor>a\<rfloor>)) - 1
      else - int (bit_length (nat (\<lceil>1 / a\<rceil> - 1))))"

definition fl :: "rat \<Rightarrow> rat" where
  "fl x =
     (if x = 0 then 0
      else (let a = \<bar>x\<bar>;
                ulp = 2 powi (binade a - 52);
                r = of_int (round_half_even (a / ulp)) * ulp
            in if x < 0 then - r else r))"

text \<open>
  The numbers a quiz percentage can be: a finite integer, \<^verbatim>\<open>NaN\<close> (from \<^verbatim>\<open>0 / 0\<close>) or
  \<^verbatim>\<open>Infinity\<close> (from \<^verbatim>\<open>c / 0\<close> with \<open>c > 0\<close>).
\<close>

datatype jsnum = Num int | NaN | PosInf

text \<open>\<^verbatim>\<open>Math.max\<close> on two such numbers: \<^verbatim>\<open>NaN\<close> is contagious.\<close>

fun Math_max :: "jsnum \<Rightarrow> jsnum \<Rightarrow> jsnum" where
  "Math_max NaN _ = NaN"
| "Math_max _ NaN = NaN"
| "Math_max PosInf _ = PosInf"
| "Math_max _ PosInf = PosInf"
| "Math_max (Num a) (Num b) = Num (max a b)"

section \<open>Strings\<close>

text \<open>\<^verbatim>\<open>toUpperCase\<close> and \<^verbatim>\<open>toLowerCase\<close>, on the letters of ASCII.\<close>

definition lower_letters :: string where
  "lower_letters = ''abcdefghijklmnopqrstuvwxyz''"

definition upper_letters :: string where
  "upper_letters = ''ABCDEFGHIJKLMNOPQRSTUVWXYZ''"

definition upper_char :: "char \<Rightarrow> char" where
  "upper_char c = (case map_of (zip lower_letters upper_letters) c of Some u \<Rightarrow> u | None \<Rightarrow> c)"

definition lower_char :: "char \<Rightarrow> char" where
  "lower_char c = (case map_of (zip upper_letters lower_letters) c of Some l \<Rightarrow> l | None \<Rightarrow> c)"

definition toUpperCase :: "string \<Rightarrow> string" where
  "toUpperCase s = map upper_char s"

definition toLowerCase :: "string \<Rightarrow> string" where
  "toLowerCase s = map lower_char s"

section \<open>Progress data (\<^verbatim>\<open>lib/vocabulary/progress.ts\<close>)\<close>

datatype reviewType = oneDay | oneWeek

record QuizAttempt =
  attempt_date :: int
  attempt_score :: jsnum
  correct :: nat
  total :: nat

record ReviewSlot =
  date :: int
  completed :: bool

record ReviewSchedule =
  oneDaySlot :: ReviewSlot
  oneWeekSlot :: ReviewSlot

record PositionResult =
  itemId :: string
  userAnswer :: string
  isCorrect :: bool

record ActiveQuizPosition =
  currentIndex :: nat
  shuffledItemIds :: "string list"
  results :: "PositionResult list"
  startedAt :: int

record ActiveReviewPosition = ActiveQuizPosition +
  position_reviewType :: reviewType

record TopicProgress =
  topicId :: string
  quizAttempts :: "QuizAttempt list"
  bestScore :: "jsnum option"
  completedAt :: "int option"
  reviewSchedule :: "ReviewSchedule option"
  activeReview :: "ActiveReviewPosition option"
  activeQuiz :: "ActiveQuizPosition option"

text \<open>
  \<^verbatim>\<open>topics: Record<string, TopicProgress>\<close> is the list of the object's own properties in
  the order \<^verbatim>\<open>Object.values\<close> enumerates them. Reading a key is \<open>map_of\<close>; writing
  one (\<^verbatim>\<open>{...obj, [k]: v}\<close>) keeps the place of an existing key and puts a new key last,
  which is JavaScript's order for keys that are not canonical array indices.
\<close>

type_synonym topics_obj = "(string \<times> TopicProgress) list"

fun obj_set :: "string \<Rightarrow> 'v \<Rightarrow> (string \<times> 'v) list \<Rightarrow> (string \<times> 'v) list" where
  "obj_set k v [] = [(k, v)]"
| "obj_set k v ((k', v') # ps) = (if k' = k then (k, v) # ps else (k', v') # obj_set k v ps)"

record LearningProgress =
  version :: nat
  topics :: topics_obj
  lastUpdated :: int
  dismissedReviewAlerts :: "string list option"

definition createInitialTopicProgress :: "string \<Rightarrow> TopicProgress" where
  "createInitialTopicProgress tid =
     \<lparr> topicId = tid, quizAttempts = [], bestScore = None, completedAt = None,
       reviewSchedule = None, activeReview = None, activeQuiz = None \<rparr>"

section \<open>The progress store (\<^verbatim>\<open>useProgress\<close>)\<close>

text \<open>
  The state cell is \<^verbatim>\<open>LearningProgress | null\<close>; it is \<^verbatim>\<open>null\<close> until the load
  finishes, and every mutation returns a \<^verbatim>\<open>null\<close> cell as it is.
\<close>

definition slot_of :: "reviewType \<Rightarrow> ReviewSchedule \<Rightarrow> ReviewSlot" where
  "slot_of rt s = (case rt of oneDay \<Rightarrow> oneDaySlot s | oneWeek \<Rightarrow> oneWeekSlot s)"

definition set_slot :: "reviewType \<Rightarrow> ReviewSlot \<Rightarrow> ReviewSchedule \<Rightarrow> ReviewSchedule" where
  "set_slot rt x s =
     (case rt of oneDay \<Rightarrow> s\<lparr>oneDaySlot := x\<rparr> | oneWeek \<Rightarrow> s\<lparr>oneWeekSlot := x\<rparr>)"

definition markReviewCompleted ::
  "int \<Rightarrow> string \<Rightarrow> reviewType \<Rightarrow> LearningProgress option \<Rightarrow> LearningProgress option" where
  "markReviewCompleted now tid rt prev =
     (case prev of
        None \<Rightarrow> None
      | Some p \<Rightarrow>
          (case map_of (topics p) tid of
             None \<Rightarrow> Some p
           | Some existingTopicProgress \<Rightarrow>
               (case reviewSchedule existingTopicProgress of
                  None \<Rightarrow> Some p
                | Some sched \<Rightarrow>
                    (let newReviewSchedule =
                           set_slot rt ((slot_of rt sched)\<lparr>completed := True\<rparr>) sched
                     in Some (p\<lparr> topics :=
                                  obj_set tid
                                    (existingTopicProgress\<lparr>reviewSchedule := Some newReviewSchedule\<rparr>)
                                    (topics p),
                                lastUpdated := now \<rparr>)))))"

section \<open>The \<^verbatim>\<open>Date\<close> object\<close>

text \<open>
  \<^verbatim>\<open>Date\<close> is the time value it holds, and its methods are the abstract operations of
  ECMA-262 (section "Date Objects"). Time values stay within the range \<^verbatim>\<open>TimeClip\<close>
  accepts. The local time zone is a parameter of every function that reads a local
  field or sets one.
\<close>

definition msPerDay :: int where
  "msPerDay = 86400000"

definition Day :: "int \<Rightarrow> int" where
  "Day t = t div msPerDay"

definition TimeWithinDay :: "int \<Rightarrow> int" where
  "TimeWithinDay t = t mod msPerDay"

definition DaysInYear :: "int \<Rightarrow> int" where
  "DaysInYear y =
     (if y mod 4 \<noteq> 0 then 365 else if y mod 100 \<noteq> 0 then 366
      else if y mod 400 \<noteq> 0 then 365 else 366)"

definition DayFromYear :: "int \<Rightarrow> int" where
  "DayFromYear y =
     365 * (y - 1970) + (y - 1969) div 4 - (y - 1901) div 100 + (y - 1601) div 400"

text \<open>
  \<^verbatim>\<open>YearFromTime(t)\<close> is the largest \<open>y\<close> with \<open>TimeFromYear(y) \<le> t\<close>; it is found among
  the three years around the estimate of 146097 days to 400 years.
\<close>

definition YearFromTime :: "int \<Rightarrow> int" where
  "YearFromTime t =
     (let d = Day t; e = 1970 + (d * 400) div 146097
      in if DayFromYear (e + 1) \<le> d then e + 1
         else if DayFromYear e \<le> d then e else e - 1)"

definition InLeapYear :: "int \<Rightarrow> int" where
  "InLeapYear t = (if DaysInYear (YearFromTime t) = 366 then 1 else 0)"

definition DayWithinYear :: "int \<Rightarrow> int" where
  "DayWithinYear t = Day t - DayFromYear (YearFromTime t)"

definition MonthFromTime :: "int \<Rightarrow> int" where
  "MonthFromTime t =
     (let d = DayWithinYear t; l = InLeapYear t
      in if d < 31 then 0
         else if d < 59 + l then 1
         else if d < 90 + l then 2
         else if d < 120 + l then 3
         else if d < 151 + l then 4
         else if d < 181 + l then 5
         else if d < 212 + l then 6
         else if d < 243 + l then 7
         else if d < 273 + l then 8
         else if d < 304 + l then 9
         else if d < 334 + l then 10
         else 11)"

definition DateFromTime :: "int \<Rightarrow> int" where
  "DateFromTime t =
     (let d = DayWithinYear t; l = InLeapYear t; m = MonthFromTime t
      in if m = 0 then d + 1
         else if m = 1 then d - 30
         else if m = 2 then d - 58 - l
         else if m = 3 then d - 89 - l
         else if m = 4 then d - 119 - l
         else if m = 5 then d - 150 - l
         else if m = 6 then d - 180 - l
         else if m = 7 then d - 211 - l
         else if m = 8 then d - 242 - l
         else if m = 9 then d - 272 - l
         else if m = 10 then d - 303 - l
         else d - 333 - l)"

definition MakeTime :: "int \<Rightarrow> int \<Rightarrow> int \<Rightarrow> int \<Rightarrow> int" where
  "MakeTime hour minute sec ms = hour * 3600000 + minute * 60000 + sec * 1000 + ms"

text \<open>
  \<^verbatim>\<open>MakeDay(year, month, date)\<close>: the day number of the first of the month
  \<open>(ym, mn)\<close>, plus \<open>date - 1\<close>.
\<close>

definition firstDayOfMonth :: "int \<Rightarrow> int \<Rightarrow> int" where
  "firstDayOfMonth ym mn =
     (let l = (if DaysInYear ym = 366 then 1 else 0)
      in DayFromYear ym +
         (if mn = 0 then 0
          else if mn = 1 then 31
          else if mn = 2 then 59 + l
          else if mn = 3 then 90 + l
          else if mn = 4 then 120 + l
          else if mn = 5 then 151 + l
          else if mn = 6 then 181 + l
          else if mn = 7 then 212 + l
          else if mn = 8 then 243 + l
          else if mn = 9 then 273 + l
          else if mn = 10 then 304 + l
          else 334 + l))"

definition MakeDay :: "int \<Rightarrow> int \<Rightarrow> int \<Rightarrow> int" where
  "MakeDay year month dt =
     (let ym = year + month div 12; mn = month mod 12
      in firstDayOfMonth ym mn + dt - 1)"

definition MakeDate :: "int \<Rightarrow> int \<Rightarrow> int" where
  "MakeDate day time = day * msPerDay + time"

text \<open>
  A time zone: the offset from UTC, in milliseconds, in force before its first
  transition, and its transitions in ascending order of their instants, each with the
  offset in force from that instant on. A zone without transitions has a fixed offset.
\<close>

record TimeZone =
  baseOffset :: int
  transitions :: "(int \<times> int) list"

definition fixed_zone :: "int \<Rightarrow> TimeZone" where
  "fixed_zone off = \<lparr> baseOffset = off, transitions = [] \<rparr>"

text \<open>The offset in force at the instant \<open>u\<close> (\<^verbatim>\<open>GetNamedTimeZoneOffsetNanoseconds\<close>).\<close>

definition offsetAt :: "TimeZone \<Rightarrow> int \<Rightarrow> int" where
  "offsetAt z u =
     foldl (\<lambda>off tr. if fst tr \<le> u then snd tr else off) (baseOffset z) (transitions z)"

definition LocalTime :: "TimeZone \<Rightarrow> int \<Rightarrow> int" where
  "LocalTime z t = t + offsetAt z t"

text \<open>
  The instants at which the clock of the zone shows the local time \<open>lt\<close>, in ascending
  order (\<^verbatim>\<open>GetNamedTimeZoneEpochNanoseconds\<close>): none for a local time that a transition
  skips, two for one that a transition repeats.
\<close>

definition possibleInstants :: "TimeZone \<Rightarrow> int \<Rightarrow> int list" where
  "possibleInstants z lt =
     sort (remdups (filter (\<lambda>u. u + offsetAt z u = lt)
                      (map (\<lambda>off. lt - off) (baseOffset z # map snd (transitions z)))))"

text \<open>
  \<^verbatim>\<open>UTC(t)\<close>: the first instant that shows the local time \<open>lt\<close>; for a skipped local
  time, \<open>lt\<close> read with the offset before the transition, which is the offset at the
  last instant of the largest local time below \<open>lt\<close> that the clock shows, the local time
  of the last millisecond before a transition. Where the transitions ascend, a skipped
  local time has such a local time below it; the two branches on empty lists make the
  function total on every other list of transitions.
\<close>

definition UTC :: "TimeZone \<Rightarrow> int \<Rightarrow> int" where
  "UTC z lt =
     (case possibleInstants z lt of
        u # us \<Rightarrow> lt - offsetAt z u
      | [] \<Rightarrow>
          (let before = filter (\<lambda>x. x < lt)
                          (map (\<lambda>tr. fst tr - 1 + offsetAt z (fst tr - 1)) (transitions z))
           in if before = [] then lt - baseOffset z
              else (let tBefore = foldl max (hd before) (tl before);
                        possibleInstantsBefore = possibleInstants z tBefore
                    in if possibleInstantsBefore = [] then lt - baseOffset z
                       else lt - offsetAt z (last possibleInstantsBefore))))"

definition getDate :: "TimeZone \<Rightarrow> int \<Rightarrow> int" where
  "getDate z d = DateFromTime (LocalTime z d)"

definition setDate :: "TimeZone \<Rightarrow> int \<Rightarrow> int \<Rightarrow> int" where
  "setDate z d dt =
     (let t = LocalTime z d;
          newDate = MakeDate (MakeDay (YearFromTime t) (MonthFromTime t) dt) (TimeWithinDay t)
      in UTC z newDate)"

definition setHours :: "TimeZone \<Rightarrow> int \<Rightarrow> int \<Rightarrow> int \<Rightarrow> int \<Rightarrow> int \<Rightarrow> int" where
  "setHours z d hour minute sec ms =
     (let t = LocalTime z d;
          newDate = MakeDate (Day t) (MakeTime hour minute sec ms)
      in UTC z newDate)"

section \<open>Review schedules (\<^verbatim>\<open>lib/vocabulary/progress.ts\<close>)\<close>

definition getStartOfNextDay :: "TimeZone \<Rightarrow> int \<Rightarrow> int" where
  "getStartOfNextDay z timestamp =
     (let d0 = timestamp;
          d1 = setDate z d0 (getDate z d0 + 1);
          d2 = setHours z d1 0 0 0 0
      in d2)"

definition getStartOfDayAfter :: "TimeZone \<Rightarrow> int \<Rightarrow> int \<Rightarrow> int" where
  "getStartOfDayAfter z timestamp days =
     (let d0 = timestamp;
          d1 = setDate z d0 (getDate z d0 + days);
          d2 = setHours z d1 0 0 0 0
      in d2)"

definition createReviewSchedule :: "TimeZone \<Rightarrow> int \<Rightarrow> ReviewSchedule" where
  "createReviewSchedule z completedAt' =
     \<lparr> oneDaySlot = \<lparr> date = getStartOfNextDay z completedAt', completed = False \<rparr>,
       oneWeekSlot = \<lparr> date = getStartOfDayAfter z completedAt' 7, completed = False \<rparr> \<rparr>"

record ReviewDue =
  oneDayDue :: bool
  oneWeekDue :: bool
  anyDue :: bool

definition isReviewDue :: "int \<Rightarrow> ReviewSchedule option \<Rightarrow> ReviewDue" where
  "isReviewDue now schedule =
     (case schedule of
        None \<Rightarrow> \<lparr> oneDayDue = False, oneWeekDue = False, anyDue = False \<rparr>
      | Some s \<Rightarrow>
          (let d = \<not> completed (oneDaySlot s) \<and> now \<ge> date (oneDaySlot s);
               w = \<not> completed (oneWeekSlot s) \<and> now \<ge> date (oneWeekSlot s)
           in \<lparr> oneDayDue = d, oneWeekDue = w, anyDue = d \<or> w \<rparr>))"

text \<open>
  \<^verbatim>\<open>Math.round((score.correct / score.total) * 100)\<close>. The two counts are array lengths
  at every call site, hence naturals; \<^verbatim>\<open>0 / 0\<close> is \<^verbatim>\<open>NaN\<close> and \<^verbatim>\<open>c / 0\<close> is
  \<^verbatim>\<open>Infinity\<close>, and \<^verbatim>\<open>Math.round\<close> returns both as they are.
\<close>

definition percentage :: "nat \<Rightarrow> nat \<Rightarrow> jsnum" where
  "percentage c t =
     (if t = 0 then (if c = 0 then NaN else PosInf)
      else Num (Math_round (fl (fl (of_nat c / of_nat t) * 100))))"

definition existing_or_initial :: "topics_obj \<Rightarrow> string \<Rightarrow> TopicProgress" where
  "existing_or_initial ts tid =
     (case map_of ts tid of None \<Rightarrow> createInitialTopicProgress tid | Some tp \<Rightarrow> tp)"

definition recordQuizAttempt ::
  "TimeZone \<Rightarrow> int \<Rightarrow> string \<Rightarrow> nat \<times> nat \<Rightarrow> LearningProgress option \<Rightarrow> LearningProgress option" where
  "recordQuizAttempt z now tid sc prev =
     (case prev of
        None \<Rightarrow> None
      | Some p \<Rightarrow>
          (let pct = percentage (fst sc) (snd sc);
               existingTopicProgress = existing_or_initial (topics p) tid;
               isFirstCompletion = (completedAt existingTopicProgress = None);
               newAttempt = \<lparr> attempt_date = now, attempt_score = pct,
                              correct = fst sc, total = snd sc \<rparr>;
               newTopicProgress = existingTopicProgress
                 \<lparr> quizAttempts := quizAttempts existingTopicProgress @ [newAttempt],
                   bestScore :=
                     (case bestScore existingTopicProgress of
                        None \<Rightarrow> Some pct
                      | Some b \<Rightarrow> Some (Math_max b pct)),
                   completedAt :=
                     (case completedAt existingTopicProgress of
                        None \<Rightarrow> Some now
                      | Some c \<Rightarrow> Some c),
                   reviewSchedule :=
                     (if isFirstCompletion then Some (createReviewSchedule z now)
                      else reviewSchedule existingTopicProgress) \<rparr>
           in Some (p\<lparr> topics := obj_set tid newTopicProgress (topics p),
                      lastUpdated := now \<rparr>)))"

text \<open>\<^verbatim>\<open>key.startsWith(prefix)\<close>.\<close>

definition startsWith :: "string \<Rightarrow> string \<Rightarrow> bool" where
  "startsWith s pre = (take (length pre) s = pre)"

text \<open>The alert key of a topic and a slot: \<^verbatim>\<open>`${topicId}-${reviewType}`\<close>.\<close>

definition reviewType_name :: "reviewType \<Rightarrow> string" where
  "reviewType_name rt = (case rt of oneDay \<Rightarrow> ''oneDay'' | oneWeek \<Rightarrow> ''oneWeek'')"

definition alert_key :: "string \<Rightarrow> reviewType \<Rightarrow> string" where
  "alert_key tid rt = tid @ ''-'' @ reviewType_name rt"

definition scheduleReview ::
  "TimeZone \<Rightarrow> int \<Rightarrow> string \<Rightarrow> LearningProgress option \<Rightarrow> LearningProgress option" where
  "scheduleReview z now tid prev =
     (case prev of
        None \<Rightarrow> None
      | Some p \<Rightarrow>
          (let existingTopicProgress = existing_or_initial (topics p) tid;
               dismissedAlerts =
                 filter (\<lambda>key. \<not> startsWith key (tid @ ''-''))
                   (case dismissedReviewAlerts p of None \<Rightarrow> [] | Some ks \<Rightarrow> ks)
           in Some (p\<lparr> topics :=
                        obj_set tid
                          (existingTopicProgress
                             \<lparr>reviewSchedule := Some (createReviewSchedule z now)\<rparr>)
                          (topics p),
                      dismissedReviewAlerts := Some dismissedAlerts,
                      lastUpdated := now \<rparr>)))"

definition dismissReviewAlert ::
  "int \<Rightarrow> string \<Rightarrow> reviewType \<Rightarrow> LearningProgress option \<Rightarrow> LearningProgress option" where
  "dismissReviewAlert now tid rt prev =
     (case prev of
        None \<Rightarrow> None
      | Some p \<Rightarrow>
          (let key = alert_key tid rt;
               existing = (case dismissedReviewAlerts p of None \<Rightarrow> [] | Some ks \<Rightarrow> ks)
           in if key \<in> set existing then Some p
              else Some (p\<lparr> dismissedReviewAlerts := Some (existing @ [key]),
                           lastUpdated := now \<rparr>)))"

definition isReviewAlertDismissed :: "string \<Rightarrow> reviewType \<Rightarrow> LearningProgress option \<Rightarrow> bool" where
  "isReviewAlertDismissed tid rt progress =
     (case progress of
        None \<Rightarrow> False
      | Some p \<Rightarrow>
          (case dismissedReviewAlerts p of
             None \<Rightarrow> False
           | Some ks \<Rightarrow> alert_key tid rt \<in> set ks))"

record DueReview =
  due_topicId :: string
  due_reviewType :: reviewType

text \<open>
  The body of the \<^verbatim>\<open>forEach\<close> in \<^verbatim>\<open>getDueReviews\<close>: what one topic pushes onto
  \<^verbatim>\<open>dueReviews\<close>.
\<close>

definition pushDue :: "int \<Rightarrow> DueReview list \<Rightarrow> TopicProgress \<Rightarrow> DueReview list" where
  "pushDue now dueReviews topicProgress =
     (let reviewStatus = isReviewDue now (reviewSchedule topicProgress)
      in if oneDayDue reviewStatus
         then dueReviews @ [\<lparr> due_topicId = topicId topicProgress, due_reviewType = oneDay \<rparr>]
         else if oneWeekDue reviewStatus
         then dueReviews @ [\<lparr> due_topicId = topicId topicProgress, due_reviewType = oneWeek \<rparr>]
         else dueReviews)"

definition getDueReviews :: "int \<Rightarrow> LearningProgress option \<Rightarrow> DueReview list" where
  "getDueReviews now progress =
     (case progress of
        None \<Rightarrow> []
      | Some p \<Rightarrow> foldl (pushDue now) [] (map snd (topics p)))"

definition createInitialProgress :: "int \<Rightarrow> LearningProgress" where
  "createInitialProgress now =
     \<lparr> version = 1, topics = [], lastUpdated = now, dismissedReviewAlerts = None \<rparr>"

section \<open>Sample data of the worked examples\<close>


definition zone_skipping_two :: TimeZone where
  "zone_skipping_two =
     \<lparr> baseOffset = - 18000000, transitions = [(1710054000000, - 14400000)] \<rparr>"

definition sample_schedule :: ReviewSchedule where
  "sample_schedule =
     \<lparr> oneDaySlot = \<lparr> date = 100, completed = False \<rparr>,
       oneWeekSlot = \<lparr> date = 200, completed = False \<rparr> \<rparr>"

definition sample_topic :: "string \<Rightarrow> ReviewSchedule option \<Rightarrow> TopicProgress" where
  "sample_topic tid sched = (createInitialTopicProgress tid)\<lparr>reviewSchedule := sched\<rparr>"

definition sample_progress :: LearningProgress where
  "sample_progress =
     \<lparr> version = 1,
       topics = [(''food'', sample_topic ''food'' (Some sample_schedule)),
                 (''food-drinks'', sample_topic ''food-drinks'' None)],
       lastUpdated = 0,
       dismissedReviewAlerts = Some [''food-oneDay'', ''food-drinks-oneDay'', ''travel-oneWeek''] \<rparr>"

definition sample_attempted :: LearningProgress where
  "sample_attempted =
     \<lparr> version = 1,
       topics = [(''travel'',
                  \<lparr> topicId = ''travel'',
                    quizAttempts = [\<lparr> attempt_date = 50, attempt_score = Num 80,
                                      correct = 4, total = 5 \<rparr>],
                    bestScore = Some (Num 80), completedAt = Some 50,
                    reviewSchedule = Some sample_schedule,
                    activeReview = None, activeQuiz = None \<rparr>)],
       lastUpdated = 50,
       dismissedReviewAlerts = None \<rparr>"

section \<open>Translation checking (\<^verbatim>\<open>lib/translationChecker.ts\<close>)\<close>

record GrammarError =
  message :: string
  err_context :: string
  suggestion :: string

text \<open>The \<^verbatim>\<open>score\<close> is 0 to 100, or \<open>-1\<close> when no evaluation is available.\<close>

record TranslationCheckResult =
  grammarCorrect :: bool
  grammarErrors :: "GrammarError list"
  isCorrect :: bool
  score :: rat
  feedback :: string
  suggestions :: "string list"
  referenceTranslation :: string

subsection \<open>Text utilities\<close>

text \<open>The two quote characters \<^verbatim>\<open>'\<close> and \<^verbatim>\<open>"\<close>.\<close>

definition is_quote :: "char \<Rightarrow> bool" where
  "is_quote c = (c = CHR 0x27 \<or> c = CHR 0x22)"

text \<open>The class \<^verbatim>\<open>[.,!?;:'"()-]\<close>.\<close>

definition is_punctuation :: "char \<Rightarrow> bool" where
  "is_punctuation c = (c \<in> set ''.,!?;:()-'' \<or> is_quote c)"

text \<open>The class \<^verbatim>\<open>\s\<close> within ASCII: space, tab, line feed, vertical tab, form feed, return.\<close>

definition is_space :: "char \<Rightarrow> bool" where
  "is_space c = (c \<in> set [CHR 0x20, CHR 0x09, CHR 0x0A, CHR 0x0B, CHR 0x0C, CHR 0x0D])"

text \<open>\<^verbatim>\<open>replace(/\s+/g, " ")\<close>: each maximal run of white space becomes one space.\<close>

function collapse_spaces :: "string \<Rightarrow> string" where
  "collapse_spaces [] = []"
| "collapse_spaces (c # cs) =
     (if is_space c then CHR '' '' # collapse_spaces (dropWhile is_space cs)
      else c # collapse_spaces cs)"
  by pat_completeness auto
termination
  by (relation "measure length") (auto simp: le_imp_less_Suc length_dropWhile_le)

definition trim :: "string \<Rightarrow> string" where
  "trim s = rev (dropWhile is_space (rev (dropWhile is_space s)))"

definition normalizeForComparison :: "string \<Rightarrow> string" where
  "normalizeForComparison text' =
     trim (collapse_spaces (filter (\<lambda>c. \<not> is_punctuation c) (toLowerCase text')))"

text \<open>\<^verbatim>\<open>s.split(" ")\<close>: the pieces between the separators; the empty string has one piece.\<close>

fun split_on :: "char \<Rightarrow> string \<Rightarrow> string list" where
  "split_on sep [] = [[]]"
| "split_on sep (c # cs) =
     (if c = sep then [] # split_on sep cs
      else (case split_on sep cs of
              [] \<Rightarrow> [[c]]
            | w # ws \<Rightarrow> (c # w) # ws))"

text \<open>\<^verbatim>\<open>s.includes(t)\<close>: \<open>t\<close> occurs in \<open>s\<close> as a contiguous piece.\<close>

fun str_includes :: "string \<Rightarrow> string \<Rightarrow> bool" where
  "str_includes [] t = (t = [])"
| "str_includes (c # cs) t = (startsWith (c # cs) t \<or> str_includes cs t)"

text \<open>
  \<^verbatim>\<open>s.match(/['"]([^'"]+)['"]/g)\<close>: the matches from left to right, each a quote, one or
  more characters that are not quotes, and a quote; the search goes on after the closing
  quote of a match. No match (\<^verbatim>\<open>null\<close>) is the empty list.
\<close>

function quotedTerms :: "string \<Rightarrow> string list" where
  "quotedTerms [] = []"
| "quotedTerms (c # cs) =
     (if is_quote c
      then (let body = takeWhile (\<lambda>x. \<not> is_quote x) cs;
                rest = dropWhile (\<lambda>x. \<not> is_quote x) cs
            in if body \<noteq> [] \<and> rest \<noteq> []
               then (c # body @ [hd rest]) # quotedTerms (tl rest)
               else quotedTerms cs)
      else quotedTerms cs)"
  by pat_completeness auto
termination
proof (relation "measure length", goal_cases)
  case 1
  then show ?case by simp
next
  case (2 c cs body rest)
  have "length (dropWhile (\<lambda>x. \<not> is_quote x) cs) \<le> length cs"
    by (rule length_dropWhile_le)
  with 2 show ?case by (cases "dropWhile (\<lambda>x. \<not> is_quote x) cs") auto
next
  case 3
  then show ?case by simp
next
  case 4
  then show ?case by simp
qed

subsection \<open>Similarity and the correction pass\<close>

definition calculateSimilarity :: "string \<Rightarrow> string \<Rightarrow> int" where
  "calculateSimilarity text1 text2 =
     (let words1 = split_on CHR '' '' (normalizeForComparison text1);
          words2 = split_on CHR '' '' (normalizeForComparison text2)
      in if length words1 = 0 \<or> length words2 = 0 then 0
         else (let set1 = remdups words1;
                   matches = length (filter (\<lambda>w. w \<in> set words2) set1);
                   union = length (remdups (words1 @ words2))
               in Math_round (fl (fl (of_nat matches / of_nat union) * 100))))"

definition filterContradictorySuggestions :: "string \<Rightarrow> string list \<Rightarrow> string list" where
  "filterContradictorySuggestions userTranslation sugs =
     (let normalizedUser = normalizeForComparison userTranslation
      in filter
           (\<lambda>sug. \<not> (\<exists>quoted \<in> set (quotedTerms sug).
                        str_includes normalizedUser
                          (toLowerCase (filter (\<lambda>c. \<not> is_quote c) quoted))))
           sugs)"

definition filterContradictoryGrammarErrors :: "string \<Rightarrow> GrammarError list \<Rightarrow> GrammarError list" where
  "filterContradictoryGrammarErrors userTranslation errors =
     (let normalizedUser = normalizeForComparison userTranslation
      in filter
           (\<lambda>err.
              \<not> (\<exists>quoted \<in> set (quotedTerms (toLowerCase (suggestion err))).
                    str_includes normalizedUser (filter (\<lambda>c. \<not> is_quote c) quoted))
              \<and> \<not> (length (normalizeForComparison (suggestion err)) > 3
                    \<and> str_includes normalizedUser (normalizeForComparison (suggestion err))))
           errors)"

text \<open>
  The value of the variable \<^verbatim>\<open>correctedResult\<close> of \<^verbatim>\<open>correctScoreIfSimilar\<close> where the
  reference translation is tested: the result after the contradictory feedback is
  removed and the score boosted by 5 for each removed entry.
\<close>

definition correctedResult :: "string \<Rightarrow> TranslationCheckResult \<Rightarrow> TranslationCheckResult" where
  "correctedResult userTranslation result =
     (let filteredSuggestions = filterContradictorySuggestions userTranslation (suggestions result);
          filteredGrammarErrors =
            filterContradictoryGrammarErrors userTranslation (grammarErrors result);
          corrected = result\<lparr> suggestions := filteredSuggestions,
                              grammarErrors := filteredGrammarErrors,
                              grammarCorrect := (length filteredGrammarErrors = 0) \<rparr>;
          removedSuggestions = length (suggestions result) - length filteredSuggestions;
          removedErrors = length (grammarErrors result) - length filteredGrammarErrors
      in if removedSuggestions > 0 \<or> removedErrors > 0
         then corrected
                \<lparr> score := min 100 (fl (score corrected
                                          + of_nat ((removedSuggestions + removedErrors) * 5))),
                  feedback := (if length filteredSuggestions = 0
                                  \<and> length filteredGrammarErrors = 0
                               then ''Good translation!'' else feedback corrected) \<rparr>
         else corrected)"

definition correctScoreIfSimilar :: "string \<Rightarrow> TranslationCheckResult \<Rightarrow> TranslationCheckResult" where
  "correctScoreIfSimilar userTranslation result =
     (let corrected = correctedResult userTranslation result
      in if referenceTranslation result = [] then corrected
         else (let similarity = calculateSimilarity userTranslation (referenceTranslation result)
               in if similarity \<ge> 90 \<and> score corrected < 90
                  then corrected
                         \<lparr> score := max (score corrected) 95,
                           isCorrect := True,
                           feedback :=
                             ''Excellent! Your translation matches the reference very closely.'',
                           suggestions := [],
                           grammarErrors := [],
                           grammarCorrect := True \<rparr>
                  else if similarity \<ge> 80 \<and> score corrected < 80
                  then corrected
                         \<lparr> score := max (score corrected) 85,
                           isCorrect := True,
                           feedback := (if feedback corrected \<noteq> [] then feedback corrected
                                        else ''Good translation with minor differences.''),
                           suggestions := (if length (suggestions corrected) > 2
                                           then take 1 (suggestions corrected)
                                           else suggestions corrected) \<rparr>
                  else corrected))"

subsection \<open>Parsing the evaluator's answer\<close>

text \<open>
  A parsed JSON value. \<^verbatim>\<open>JSON.parse\<close> itself is the parameter \<open>JSON_parse\<close> of the
  functions below: \<open>None\<close> where it throws.
\<close>

datatype json =
  JNull | JBool bool | JNum rat | JStr string | JArr "json list" | JObj "(string \<times> json) list"

text \<open>
  \<^verbatim>\<open>response.match(/\{[\s\S]*\}/)\<close>: from the first opening brace to the last closing
  brace after it.
\<close>

definition matchBraces :: "string \<Rightarrow> string option" where
  "matchBraces response =
     (let from_open = dropWhile (\<lambda>c. c \<noteq> CHR ''{'') response
      in if from_open = [] then None
         else (let inner = rev (dropWhile (\<lambda>c. c \<noteq> CHR ''}'') (rev (tl from_open)))
               in if inner = [] then None else Some (CHR ''{'' # inner)))"

text \<open>Reading a property: \<^verbatim>\<open>undefined\<close> (\<open>None\<close>) on anything but an object that has it.\<close>

definition field :: "json \<Rightarrow> string \<Rightarrow> json option" where
  "field j k = (case j of JObj fs \<Rightarrow> map_of fs k | _ \<Rightarrow> None)"

definition string_or :: "json option \<Rightarrow> string \<Rightarrow> string" where
  "string_or v d = (case v of Some (JStr s) \<Rightarrow> s | _ \<Rightarrow> d)"

definition bool_or :: "json option \<Rightarrow> bool \<Rightarrow> bool" where
  "bool_or v d = (case v of Some (JBool b) \<Rightarrow> b | _ \<Rightarrow> d)"

text \<open>\<^verbatim>\<open>typeof e === "object" && e !== null\<close>.\<close>

definition is_object :: "json \<Rightarrow> bool" where
  "is_object e = (case e of JObj _ \<Rightarrow> True | JArr _ \<Rightarrow> True | _ \<Rightarrow> False)"

definition grammarError_of :: "json \<Rightarrow> GrammarError" where
  "grammarError_of e =
     \<lparr> message = string_or (field e ''message'') ''Grammar issue'',
       err_context = string_or (field e ''context'') [],
       suggestion = string_or (field e ''suggestion'') [] \<rparr>"

text \<open>The result of the \<^verbatim>\<open>catch\<close> of \<^verbatim>\<open>parseJSONResponse\<close>.\<close>

definition parse_fallback :: TranslationCheckResult where
  "parse_fallback =
     \<lparr> grammarCorrect = True, grammarErrors = [], isCorrect = True, score = - 1,
       feedback = ''Could not parse evaluation result'',
       suggestions = [], referenceTranslation = [] \<rparr>"

text \<open>
  The body of \<^verbatim>\<open>parseJSONResponse\<close> is one \<^verbatim>\<open>try\<close>: no match, a throwing
  \<^verbatim>\<open>JSON.parse\<close> and a property read on \<^verbatim>\<open>null\<close> all end in the \<^verbatim>\<open>catch\<close>.
\<close>

definition parseJSONResponse :: "(string \<Rightarrow> json option) \<Rightarrow> string \<Rightarrow> TranslationCheckResult" where
  "parseJSONResponse JSON_parse response =
     (case matchBraces response of
        None \<Rightarrow> parse_fallback
      | Some jsonMatch \<Rightarrow>
          (case JSON_parse jsonMatch of
             None \<Rightarrow> parse_fallback
           | Some parsed \<Rightarrow>
               if parsed = JNull then parse_fallback
               else
               \<lparr> grammarCorrect = bool_or (field parsed ''grammarCorrect'') True,
                 grammarErrors =
                   (case field parsed ''grammarErrors'' of
                      Some (JArr es) \<Rightarrow> take 5 (map grammarError_of (filter is_object es))
                    | _ \<Rightarrow> []),
                 isCorrect = bool_or (field parsed ''isCorrect'') True,
                 score =
                   (case field parsed ''score'' of
                      Some (JNum x) \<Rightarrow> min 100 (max 0 x)
                    | _ \<Rightarrow> 50),
                 feedback = string_or (field parsed ''feedback'') ''Translation evaluated.'',
                 suggestions =
                   (case field parsed ''suggestions'' of
                      Some (JArr ss) \<Rightarrow>
                        take 3 (List.map_filter (\<lambda>s. case s of JStr t \<Rightarrow> Some t | _ \<Rightarrow> None) ss)
                    | _ \<Rightarrow> []),
                 referenceTranslation =
                   (case field parsed ''referenceTranslation'' of
                      Some (JStr s) \<Rightarrow> (if trim s \<noteq> [] then trim s else [])
                    | _ \<Rightarrow> []) \<rparr>))"

subsection \<open>The providers\<close>

datatype LLMProvider = ollama | openai

record Config =
  LLM_PROVIDER :: LLMProvider
  OPENAI_API_KEY :: "string option"

text \<open>
  What one HTTP call gives, as \<^verbatim>\<open>checkWithOllama\<close> and \<^verbatim>\<open>checkWithOpenAI\<close> read it:
  \<^item> \<open>NetworkError\<close>: \<^verbatim>\<open>fetch\<close> rejects;
  \<^item> \<open>HttpError status\<close>: \<^verbatim>\<open>response.ok\<close> is false;
  \<^item> \<open>Malformed\<close>: \<^verbatim>\<open>response.json()\<close> rejects, or reading the text out of the body
    raises a \<^verbatim>\<open>TypeError\<close> (\<^verbatim>\<open>data\<close> is \<^verbatim>\<open>null\<close>, \<^verbatim>\<open>data.choices\<close> is missing);
  \<^item> \<open>NonText\<close>: the body holds no string where the text is read (\<^verbatim>\<open>data.response\<close> is
    missing), so that \<^verbatim>\<open>response.match\<close> raises inside the \<^verbatim>\<open>try\<close> of
    \<^verbatim>\<open>parseJSONResponse\<close>;
  \<^item> \<open>Text s\<close>: the string handed to \<^verbatim>\<open>parseJSONResponse\<close>.
  The replies of the service are a function of the number of the call.
\<close>

datatype reply = NetworkError | HttpError nat | Malformed | NonText | Text string

datatype error = FetchFailed | ApiError nat | BodyError | MissingApiKey | NoValidResponse

definition read_reply :: "(string \<Rightarrow> json option) \<Rightarrow> reply \<Rightarrow> error + TranslationCheckResult" where
  "read_reply JSON_parse r =
     (case r of
        NetworkError \<Rightarrow> Inl FetchFailed
      | HttpError status \<Rightarrow> Inl (ApiError status)
      | Malformed \<Rightarrow> Inl BodyError
      | NonText \<Rightarrow> Inr parse_fallback
      | Text s \<Rightarrow> Inr (parseJSONResponse JSON_parse s))"

definition hasValidReference :: "string \<Rightarrow> string \<Rightarrow> TranslationCheckResult \<Rightarrow> bool" where
  "hasValidReference vietnameseSentence vocabularyWord result =
     (referenceTranslation result \<noteq> []
      \<and> trim (referenceTranslation result) \<noteq> []
      \<and> \<not> str_includes (referenceTranslation result) vietnameseSentence
      \<and> str_includes (toLowerCase (referenceTranslation result)) (toLowerCase vocabularyWord))"

definition MAX_OLLAMA_RETRIES :: nat where
  "MAX_OLLAMA_RETRIES = 3"

text \<open>
  The loop \<^verbatim>\<open>for (attempt = 1; attempt <= MAX_OLLAMA_RETRIES; attempt++)\<close> with the number
  of attempts left, and what follows it.
\<close>

fun ollama_attempts ::
  "(nat \<Rightarrow> reply) \<Rightarrow> (string \<Rightarrow> json option) \<Rightarrow> string \<Rightarrow> string \<Rightarrow> nat \<Rightarrow> nat
     \<Rightarrow> TranslationCheckResult option \<Rightarrow> error + TranslationCheckResult" where
  "ollama_attempts fetch JSON_parse vs vw attempt 0 lastResult =
     (case lastResult of
        Some r \<Rightarrow> Inr (r\<lparr>referenceTranslation := []\<rparr>)
      | None \<Rightarrow> Inl NoValidResponse)"
| "ollama_attempts fetch JSON_parse vs vw attempt (Suc left) lastResult =
     (case read_reply JSON_parse (fetch attempt) of
        Inl e \<Rightarrow> Inl e
      | Inr result \<Rightarrow>
          if hasValidReference vs vw result then Inr result
          else ollama_attempts fetch JSON_parse vs vw (attempt + 1) left (Some result))"

definition checkWithOllama ::
  "(nat \<Rightarrow> reply) \<Rightarrow> (string \<Rightarrow> json option) \<Rightarrow> string \<Rightarrow> string \<Rightarrow> string
     \<Rightarrow> error + TranslationCheckResult" where
  "checkWithOllama fetch JSON_parse vietnameseSentence userTranslation vocabularyWord =
     ollama_attempts fetch JSON_parse vietnameseSentence vocabularyWord 1 MAX_OLLAMA_RETRIES None"

definition checkWithOpenAI ::
  "Config \<Rightarrow> (nat \<Rightarrow> reply) \<Rightarrow> (string \<Rightarrow> json option) \<Rightarrow> string \<Rightarrow> string \<Rightarrow> string
     \<Rightarrow> error + TranslationCheckResult" where
  "checkWithOpenAI cfg fetch JSON_parse vietnameseSentence userTranslation vocabularyWord =
     (if OPENAI_API_KEY cfg = None \<or> OPENAI_API_KEY cfg = Some [] then Inl MissingApiKey
      else read_reply JSON_parse (fetch 1))"

definition provider_name :: "LLMProvider \<Rightarrow> string" where
  "provider_name p = (case p of ollama \<Rightarrow> ''ollama'' | openai \<Rightarrow> ''openai'')"

text \<open>
  \<^verbatim>\<open>checkTranslation\<close>: its whole body is one \<^verbatim>\<open>try\<close>, and the \<^verbatim>\<open>catch\<close> returns the
  result for an unavailable check.
\<close>

definition checkTranslation ::
  "Config \<Rightarrow> (nat \<Rightarrow> reply) \<Rightarrow> (string \<Rightarrow> json option) \<Rightarrow> string \<Rightarrow> string \<Rightarrow> string
     \<Rightarrow> TranslationCheckResult" where
  "checkTranslation cfg fetch JSON_parse vietnameseSentence userTranslation vocabularyWord =
     (case (if LLM_PROVIDER cfg = openai
            then checkWithOpenAI cfg fetch JSON_parse vietnameseSentence userTranslation vocabularyWord
            else checkWithOllama fetch JSON_parse vietnameseSentence userTranslation vocabularyWord) of
        Inr result \<Rightarrow> correctScoreIfSimilar userTranslation result
      | Inl e \<Rightarrow>
          \<lparr> grammarCorrect = True, grammarErrors = [], isCorrect = True, score = - 1,
            feedback = ''Translation check unavailable ('' @ provider_name (LLM_PROVIDER cfg) @ '')'',
            suggestions = [], referenceTranslation = [] \<rparr>)"

text \<open>
  A call that fails: a network error, a response that is not OK, a body that cannot be
  read, or a text that cannot be parsed into a judgment.
\<close>

definition call_fails :: "(string \<Rightarrow> json option) \<Rightarrow> reply \<Rightarrow> bool" where
  "call_fails JSON_parse r =
     (case r of
        Text s \<Rightarrow>
          (case matchBraces s of
             None \<Rightarrow> True
           | Some jsonMatch \<Rightarrow>
               (case JSON_parse jsonMatch of None \<Rightarrow> True | Some parsed \<Rightarrow> parsed = JNull))
      | _ \<Rightarrow> True)"

section \<open>The quiz session (\<^verbatim>\<open>useTopicQuiz\<close>)\<close>

text \<open>
  Of a \<^verbatim>\<open>VocabularyItem\<close> the hook reads the \<^verbatim>\<open>id\<close> only; the record keeps the
  \<^verbatim>\<open>id\<close> and the word.
\<close>

record VocabularyItem =
  item_id :: string
  word :: string

record QuizResult =
  item :: VocabularyItem
  userAnswer :: string
  isCorrect :: bool

record InitialState =
  shuffledItemIds :: "string list"
  currentIndex :: nat
  results :: "QuizResult list"

text \<open>The three state cells of the hook and its \<^verbatim>\<open>startedAtRef\<close>.\<close>

record QuizState =
  shuffledItems :: "VocabularyItem list"
  currentIndex :: nat
  results :: "QuizResult list"
  startedAtRef :: int

text \<open>
  \<^verbatim>\<open>Math.random()\<close> is a number in \<open>[0, 1)\<close>: the fractional part of the \<open>k\<close>-th
  element of a source of rationals.
\<close>

definition Math_random :: "(nat \<Rightarrow> rat) \<Rightarrow> nat \<Rightarrow> rat" where
  "Math_random src k = frac (src k)"

text \<open>
  The loop of \<^verbatim>\<open>shuffleArray\<close>, \<^verbatim>\<open>for (i = length - 1; i > 0; i--)\<close>, at index \<open>i\<close>
  with \<open>k\<close> calls of \<^verbatim>\<open>Math.random\<close> made so far.
\<close>

fun shuffle_loop :: "(nat \<Rightarrow> rat) \<Rightarrow> nat \<Rightarrow> nat \<Rightarrow> 'a list \<Rightarrow> 'a list" where
  "shuffle_loop src k 0 shuffled = shuffled"
| "shuffle_loop src k (Suc i') shuffled =
     (let i = Suc i';
          j = nat \<lfloor>Math_random src k * of_nat (i + 1)\<rfloor>
      in shuffle_loop src (Suc k) i' (shuffled[i := shuffled ! j, j := shuffled ! i]))"

definition shuffleArray :: "(nat \<Rightarrow> rat) \<Rightarrow> 'a list \<Rightarrow> 'a list" where
  "shuffleArray src array = shuffle_loop src 0 (length array - 1) array"

text \<open>
  \<^verbatim>\<open>new Map(items.map(item => [item.id, item]))\<close>: of two items with one \<^verbatim>\<open>id\<close> the
  later one stays.
\<close>

definition itemMap :: "VocabularyItem list \<Rightarrow> string \<Rightarrow> VocabularyItem option" where
  "itemMap items = map_of (rev (map (\<lambda>it. (item_id it, it)) items))"

definition restoreShuffledItems ::
  "VocabularyItem list \<Rightarrow> string list \<Rightarrow> VocabularyItem list option" where
  "restoreShuffledItems items ids =
     (if \<exists>i \<in> set ids. itemMap items i = None then None
      else Some (map (\<lambda>i. the (itemMap items i)) ids))"

definition useTopicQuiz ::
  "(nat \<Rightarrow> rat) \<Rightarrow> VocabularyItem list \<Rightarrow> InitialState option \<Rightarrow> QuizState" where
  "useTopicQuiz src items initialState =
     \<lparr> shuffledItems =
         (case initialState of
            None \<Rightarrow> shuffleArray src items
          | Some ini \<Rightarrow>
              (case restoreShuffledItems items (InitialState.shuffledItemIds ini) of
                 Some restored \<Rightarrow> restored
               | None \<Rightarrow> shuffleArray src items)),
       currentIndex = (case initialState of None \<Rightarrow> 0 | Some ini \<Rightarrow> InitialState.currentIndex ini),
       results = (case initialState of None \<Rightarrow> [] | Some ini \<Rightarrow> InitialState.results ini),
       startedAtRef = 0 \<rparr>"

definition currentItem :: "QuizState \<Rightarrow> VocabularyItem option" where
  "currentItem st =
     (if QuizState.currentIndex st < length (shuffledItems st)
      then Some (shuffledItems st ! QuizState.currentIndex st) else None)"

definition isComplete :: "QuizState \<Rightarrow> bool" where
  "isComplete st = (QuizState.currentIndex st \<ge> length (shuffledItems st))"

definition score :: "QuizState \<Rightarrow> nat \<times> nat" where
  "score st =
     (length (filter QuizResult.isCorrect (QuizState.results st)), length (shuffledItems st))"

definition recordAnswer :: "string \<Rightarrow> bool \<Rightarrow> QuizState \<Rightarrow> QuizState" where
  "recordAnswer ans ok st =
     (case currentItem st of
        None \<Rightarrow> st
      | Some cur \<Rightarrow>
          st\<lparr> QuizState.results :=
                QuizState.results st @ [\<lparr> item = cur, userAnswer = ans, isCorrect = ok \<rparr>] \<rparr>)"

definition nextQuestion :: "QuizState \<Rightarrow> QuizState" where
  "nextQuestion st = st\<lparr> QuizState.currentIndex := QuizState.currentIndex st + 1 \<rparr>"

definition resetQuiz :: "(nat \<Rightarrow> rat) \<Rightarrow> int \<Rightarrow> VocabularyItem list \<Rightarrow> QuizState \<Rightarrow> QuizState" where
  "resetQuiz src now items st =
     st\<lparr> shuffledItems := shuffleArray src items,
         QuizState.currentIndex := 0,
         QuizState.results := [],
         startedAtRef := now \<rparr>"

text \<open>
  One answered question, as \<^verbatim>\<open>handleQuizComplete\<close> of the quiz component drives the hook:
  \<^verbatim>\<open>recordAnswer(userAnswer, wasCorrect); nextQuestion()\<close>.
\<close>

definition answerQuestion :: "QuizState \<Rightarrow> string \<times> bool \<Rightarrow> QuizState" where
  "answerQuestion st a = nextQuestion (recordAnswer (fst a) (snd a) st)"

section \<open>Pronunciation evaluation (\<^verbatim>\<open>lib/pronunciationEvaluator.ts\<close>)\<close>

text \<open>
  The coding table \<^verbatim>\<open>codes\<close>; a letter without an entry reads \<^verbatim>\<open>undefined\<close>, which
  \<^verbatim>\<open>|| ""\<close> turns into the empty code, here \<open>None\<close>.
\<close>

definition codes :: "char \<Rightarrow> char option" where
  "codes = map_of
     [(CHR ''B'', CHR ''1''), (CHR ''F'', CHR ''1''), (CHR ''P'', CHR ''1''), (CHR ''V'', CHR ''1''),
      (CHR ''C'', CHR ''2''), (CHR ''G'', CHR ''2''), (CHR ''J'', CHR ''2''), (CHR ''K'', CHR ''2''),
      (CHR ''Q'', CHR ''2''), (CHR ''S'', CHR ''2''), (CHR ''X'', CHR ''2''), (CHR ''Z'', CHR ''2''),
      (CHR ''D'', CHR ''3''), (CHR ''T'', CHR ''3''),
      (CHR ''L'', CHR ''4''),
      (CHR ''M'', CHR ''5''), (CHR ''N'', CHR ''5''),
      (CHR ''R'', CHR ''6'')]"

text \<open>
  The loop \<^verbatim>\<open>for (i = 1; i < normalized.length && soundex.length < 4; i++)\<close> over the
  letters from index 1 on, with the variables \<^verbatim>\<open>soundex\<close> and \<^verbatim>\<open>prevCode\<close>.
\<close>

fun soundex_loop :: "string \<Rightarrow> char option \<Rightarrow> string \<Rightarrow> string" where
  "soundex_loop soundex prevCode [] = soundex"
| "soundex_loop soundex prevCode (c # rest) =
     (if length soundex < 4
      then (let code = codes c;
                soundex' = (if code \<noteq> None \<and> code \<noteq> prevCode
                            then soundex @ [the code] else soundex);
                prevCode' = (if code \<noteq> None then code else prevCode)
            in soundex_loop soundex' prevCode' rest)
      else soundex)"

definition soundexCode :: "string \<Rightarrow> string" where
  "soundexCode word' =
     (if word' = [] then []
      else (let normalized = filter (\<lambda>c. c \<in> set upper_letters) (toUpperCase word')
            in if normalized = [] then []
               else take 4 (soundex_loop [hd normalized] (codes (hd normalized)) (tl normalized)
                            @ ''000'')))"

text \<open>
  The reference of the specification, in its words: the first letter is kept; each later
  letter is mapped through the table; a mapped digit is appended only when it differs
  from the immediately preceding code, and a letter without a code (a vowel, H, W, Y)
  resets that code, so that it does not suppress the next digit; the result is padded
  with \<open>0\<close> and cut to four characters.
\<close>

fun spec_digits :: "char option \<Rightarrow> string \<Rightarrow> string" where
  "spec_digits prev [] = []"
| "spec_digits prev (c # cs) =
     (case codes c of
        None \<Rightarrow> spec_digits None cs
      | Some d \<Rightarrow> (if prev = Some d then [] else [d]) @ spec_digits (Some d) cs)"

definition soundex_spec :: "string \<Rightarrow> string" where
  "soundex_spec w =
     (let letters = filter (\<lambda>c. c \<in> set upper_letters) (toUpperCase w)
      in if letters = [] then []
         else take 4 (hd letters # spec_digits (codes (hd letters)) (tl letters) @ ''000''))"

text \<open>
  The reference without the reset: the letters without a code are dropped, and of each
  run of equal codes among the remaining ones (the first letter's code leading) one
  digit is kept.
\<close>

definition soundex_collapsed :: "string \<Rightarrow> string" where
  "soundex_collapsed w =
     (let letters = filter (\<lambda>c. c \<in> set upper_letters) (toUpperCase w);
          coded = List.map_filter codes (tl letters)
      in if letters = [] then []
         else take 4 (hd letters
                      # (case codes (hd letters) of
                           None \<Rightarrow> remdups_adj coded
                         | Some d \<Rightarrow> tl (remdups_adj (d # coded)))
                      @ ''000''))"

text \<open>The digits the loop appends when it runs through all the letters.\<close>

fun loop_digits :: "char option \<Rightarrow> string \<Rightarrow> string" where
  "loop_digits prev [] = []"
| "loop_digits prev (c # cs) =
     (case codes c of
        None \<Rightarrow> loop_digits prev cs
      | Some d \<Rightarrow> (if prev = Some d then [] else [d]) @ loop_digits (Some d) cs)"

text \<open>
  The loop of \<^verbatim>\<open>calculateWordMatchScore\<close> over the recognized words, with the counter
  \<^verbatim>\<open>matchedWords\<close> and the \<^verbatim>\<open>Set\<close> of expected words.
\<close>

fun match_loop :: "nat \<Rightarrow> string set \<Rightarrow> string list \<Rightarrow> nat" where
  "match_loop matchedWords expectedSet [] = matchedWords"
| "match_loop matchedWords expectedSet (w # ws) =
     (if w \<in> expectedSet
      then match_loop (matchedWords + 1) (expectedSet - {w}) ws
      else match_loop matchedWords expectedSet ws)"

text \<open>The result is the pair of \<^verbatim>\<open>score\<close> and \<^verbatim>\<open>matchedWords\<close>.\<close>

definition calculateWordMatchScore :: "string list \<Rightarrow> string list \<Rightarrow> rat \<times> nat" where
  "calculateWordMatchScore recognizedWords expectedWords =
     (if length expectedWords = 0 then (100, 0)
      else if length recognizedWords = 0 then (0, 0)
      else (let matchedWords = match_loop 0 (set expectedWords) recognizedWords
            in (fl (fl (of_nat matchedWords / of_nat (length expectedWords)) * 100),
                matchedWords)))"

definition sample_judgment :: TranslationCheckResult where
  "sample_judgment =
     \<lparr> grammarCorrect = False,
       grammarErrors = [\<lparr> message = ''Tense'', err_context = ''like'',
                          suggestion = ''Consider the past tense'' \<rparr>],
       isCorrect = True, score = 92, feedback = ''Good'',
       suggestions = [''Add an article''],
       referenceTranslation = ''I like tea.'' \<rparr>"

section \<open>Results\<close>

subsection \<open>Reading and writing a property\<close>

lemma map_of_obj_set: "map_of (obj_set k v ps) = (map_of ps)(k \<mapsto> v)"
  by (induction ps) (auto simp: fun_eq_iff)

lemma map_of_Some_key: "map_of ps k = Some v \<Longrightarrow> k \<in> fst ` set ps"
  by (metis domI dom_map_of_conv_image_fst)

lemma map_fst_obj_set_present:
  "k \<in> fst ` set ps \<Longrightarrow> map fst (obj_set k v ps) = map fst ps"
  by (induction ps) force+

subsection \<open>Marking a review completed\<close>

text \<open>
  C10. When the topic has no stored entry, or its \<^verbatim>\<open>reviewSchedule\<close> is \<^verbatim>\<open>null\<close>,
  \<^verbatim>\<open>markReviewCompleted(topicId, slot)\<close> returns the aggregate it was given: no entry is
  created and \<^verbatim>\<open>lastUpdated\<close> keeps its value. When a schedule exists, the entry of the
  topic is the old one with the \<open>completed\<close> flag of that slot set to true (its due date,
  the other slot and every other field as before) and no key is added.
\<close>

theorem markReviewCompleted_guard:
  "markReviewCompleted now tid rt None = None
   \<and> (map_of (topics p) tid = None
        \<or> (\<exists>tp. map_of (topics p) tid = Some tp \<and> reviewSchedule tp = None)
      \<longrightarrow> markReviewCompleted now tid rt (Some p) = Some p)
   \<and> (\<forall>tp sched. map_of (topics p) tid = Some tp \<and> reviewSchedule tp = Some sched
      \<longrightarrow> (\<exists>sched'.
            markReviewCompleted now tid rt (Some p) =
              Some (p\<lparr> topics := obj_set tid (tp\<lparr>reviewSchedule := Some sched'\<rparr>) (topics p),
                      lastUpdated := now \<rparr>)
          \<and> completed (slot_of rt sched')
          \<and> date (slot_of rt sched') = date (slot_of rt sched)
          \<and> (\<forall>rt'. rt' \<noteq> rt \<longrightarrow> slot_of rt' sched' = slot_of rt' sched)
          \<and> map fst (obj_set tid (tp\<lparr>reviewSchedule := Some sched'\<rparr>) (topics p))
              = map fst (topics p)))"
proof (intro conjI impI allI)
  show "markReviewCompleted now tid rt None = None"
    by (simp add: markReviewCompleted_def)
next
  assume "map_of (topics p) tid = None
    \<or> (\<exists>tp. map_of (topics p) tid = Some tp \<and> reviewSchedule tp = None)"
  then show "markReviewCompleted now tid rt (Some p) = Some p"
    by (auto simp: markReviewCompleted_def)
next
  fix tp sched
  assume h: "map_of (topics p) tid = Some tp \<and> reviewSchedule tp = Some sched"
  let ?s = "set_slot rt ((slot_of rt sched)\<lparr>completed := True\<rparr>) sched"
  have keys: "map fst (obj_set tid (tp\<lparr>reviewSchedule := Some ?s\<rparr>) (topics p))
      = map fst (topics p)"
    using h by (intro map_fst_obj_set_present) (auto dest: map_of_Some_key)
  have run: "markReviewCompleted now tid rt (Some p) =
      Some (p\<lparr> topics := obj_set tid (tp\<lparr>reviewSchedule := Some ?s\<rparr>) (topics p),
              lastUpdated := now \<rparr>)"
    using h by (simp add: markReviewCompleted_def)
  have slots: "completed (slot_of rt ?s)" "date (slot_of rt ?s) = date (slot_of rt sched)"
    "\<forall>rt'. rt' \<noteq> rt \<longrightarrow> slot_of rt' ?s = slot_of rt' sched"
    by (auto simp: slot_of_def set_slot_def split: reviewType.splits)
  from run slots keys
  show "\<exists>sched'.
      markReviewCompleted now tid rt (Some p) =
        Some (p\<lparr> topics := obj_set tid (tp\<lparr>reviewSchedule := Some sched'\<rparr>) (topics p),
                lastUpdated := now \<rparr>)
    \<and> completed (slot_of rt sched')
    \<and> date (slot_of rt sched') = date (slot_of rt sched)
    \<and> (\<forall>rt'. rt' \<noteq> rt \<longrightarrow> slot_of rt' sched' = slot_of rt' sched)
    \<and> map fst (obj_set tid (tp\<lparr>reviewSchedule := Some sched'\<rparr>) (topics p))
        = map fst (topics p)"
    by blast
qed

theorem markReviewCompleted_guard_witness:
  "markReviewCompleted 500 ''travel'' oneDay (Some sample_progress) = Some sample_progress
   \<and> markReviewCompleted 500 ''food-drinks'' oneWeek (Some sample_progress) = Some sample_progress
   \<and> markReviewCompleted 500 ''food'' oneDay (Some sample_progress) =
       Some (sample_progress
         \<lparr> topics :=
             [(''food'', sample_topic ''food''
                 (Some \<lparr> oneDaySlot = \<lparr> date = 100, completed = True \<rparr>,
                         oneWeekSlot = \<lparr> date = 200, completed = False \<rparr> \<rparr>)),
              (''food-drinks'', sample_topic ''food-drinks'' None)],
           lastUpdated := 500 \<rparr>)"
proof -
  have a: "map_of (topics sample_progress) ''travel'' = None"
    by (simp add: sample_progress_def)
  have b: "map_of (topics sample_progress) ''food-drinks'' = Some (sample_topic ''food-drinks'' None)
      \<and> reviewSchedule (sample_topic ''food-drinks'' None) = None"
    by (simp add: sample_progress_def sample_topic_def)
  have c: "map_of (topics sample_progress) ''food'' = Some (sample_topic ''food'' (Some sample_schedule))
      \<and> reviewSchedule (sample_topic ''food'' (Some sample_schedule)) = Some sample_schedule"
    by (simp add: sample_progress_def sample_topic_def)
  have 1: "markReviewCompleted 500 ''travel'' oneDay (Some sample_progress) = Some sample_progress"
    using markReviewCompleted_guard [of 500 "''travel''" oneDay sample_progress] a by blast
  have 2: "markReviewCompleted 500 ''food-drinks'' oneWeek (Some sample_progress)
      = Some sample_progress"
    using markReviewCompleted_guard [of 500 "''food-drinks''" oneWeek sample_progress] b by blast
  from markReviewCompleted_guard [of 500 "''food''" oneDay sample_progress] c
  obtain sched' where r: "markReviewCompleted 500 ''food'' oneDay (Some sample_progress) =
        Some (sample_progress
          \<lparr> topics := obj_set ''food''
               ((sample_topic ''food'' (Some sample_schedule))\<lparr>reviewSchedule := Some sched'\<rparr>)
               (topics sample_progress),
            lastUpdated := 500 \<rparr>)"
    by blast
  from r have 3: "markReviewCompleted 500 ''food'' oneDay (Some sample_progress) =
       Some (sample_progress
         \<lparr> topics :=
             [(''food'', sample_topic ''food''
                 (Some \<lparr> oneDaySlot = \<lparr> date = 100, completed = True \<rparr>,
                         oneWeekSlot = \<lparr> date = 200, completed = False \<rparr> \<rparr>)),
              (''food-drinks'', sample_topic ''food-drinks'' None)],
           lastUpdated := 500 \<rparr>)"
    by (simp add: markReviewCompleted_def sample_progress_def sample_topic_def
        sample_schedule_def slot_of_def set_slot_def)
  from 1 2 3 show ?thesis by blast
qed

subsection \<open>Creating a review schedule\<close>












lemma offsetAt_two_early: "offsetAt zone_skipping_two 1710003600000 = - 18000000"
  by (simp add: offsetAt_def zone_skipping_two_def)






subsection \<open>Rounding to double precision\<close>

lemma round_half_even_le: "x \<le> of_int N \<Longrightarrow> round_half_even x \<le> N"
proof -
  assume h: "x \<le> of_int N"
  then have f: "\<lfloor>x\<rfloor> \<le> N" by (simp add: floor_le_iff)
  show ?thesis
  proof (cases "\<lfloor>x\<rfloor> = N")
    case True
    then have "of_int N \<le> x" by (metis of_int_floor_le)
    with h have "x = of_int N" by simp
    then show ?thesis by (simp add: round_half_even_def)
  next
    case False
    with f have "\<lfloor>x\<rfloor> + 1 \<le> N" by simp
    then show ?thesis by (auto simp: round_half_even_def Let_def)
  qed
qed

lemma round_half_even_nonneg: "0 \<le> x \<Longrightarrow> 0 \<le> round_half_even x"
  by (auto simp: round_half_even_def Let_def)

lemma bit_length_bound: "n < 2 ^ k \<Longrightarrow> bit_length n \<le> k"
proof (induction k arbitrary: n)
  case 0
  then show ?case by (simp add: bit_length.simps)
next
  case (Suc k)
  show ?case
  proof (cases "n = 0")
    case True
    then show ?thesis by (simp add: bit_length.simps)
  next
    case False
    from Suc.prems have "n div 2 < 2 ^ k" by simp
    from Suc.IH [OF this] False show ?thesis
      by (subst bit_length.simps) simp
  qed
qed

lemma binade_le_6: "0 < a \<Longrightarrow> a \<le> 100 \<Longrightarrow> binade a \<le> 6"
proof (cases "1 \<le> a")
  case True
  assume "a \<le> 100"
  then have "\<lfloor>a\<rfloor> < 128" by (simp add: floor_less_iff)
  then have "nat \<lfloor>a\<rfloor> < 128" by linarith
  then have "nat \<lfloor>a\<rfloor> < 2 ^ 7" by simp
  from bit_length_bound [OF this] True show ?thesis by (simp add: binade_def)
next
  case False
  then show ?thesis by (simp add: binade_def)
qed

lemma fl_nonneg: "0 \<le> a \<Longrightarrow> 0 \<le> fl a"
  by (auto simp: fl_def Let_def intro!: mult_nonneg_nonneg round_half_even_nonneg divide_nonneg_pos)

lemma fl_le_int:
  assumes "0 < a" and "a \<le> of_int B" and "binade a \<le> 52"
  shows "fl a \<le> of_int B"
proof -
  let ?k = "nat (52 - binade a)"
  let ?ulp = "(2::rat) powi (binade a - 52)"
  have ulp: "?ulp = inverse (2 ^ ?k)"
    using assms(3) by (simp add: power_int_def power_one_over inverse_eq_divide)
  have pos: "0 < ?ulp" by (simp add: ulp)
  have "a / ?ulp = a * 2 ^ ?k" by (simp add: ulp divide_inverse)
  also have "\<dots> \<le> of_int B * 2 ^ ?k" using assms(2) by simp
  also have "\<dots> = of_int (B * 2 ^ ?k)" by simp
  finally have "round_half_even (a / ?ulp) \<le> B * 2 ^ ?k"
    by (rule round_half_even_le)
  then have "(of_int (round_half_even (a / ?ulp)) :: rat) \<le> of_int (B * 2 ^ ?k)"
    by (simp only: of_int_le_iff)
  then have "of_int (round_half_even (a / ?ulp)) * ?ulp \<le> of_int (B * 2 ^ ?k) * ?ulp"
    using pos by (simp only: mult_le_cancel_right_pos)
  also have "of_int (B * 2 ^ ?k) * ?ulp = of_int B"
    by (simp add: ulp divide_inverse [symmetric])
  finally show ?thesis using assms(1) by (simp add: fl_def Let_def)
qed

lemma fl_unit_range: "0 \<le> a \<Longrightarrow> a \<le> 100 \<Longrightarrow> 0 \<le> fl a \<and> fl a \<le> 100"
proof (cases "a = 0")
  case True
  then show ?thesis by (simp add: fl_def)
next
  case False
  assume h: "0 \<le> a" "a \<le> 100"
  with False have p: "0 < a" by simp
  have "binade a \<le> 52" using binade_le_6 [OF p h(2)] by simp
  from fl_le_int [OF p _ this, of 100] h fl_nonneg [of a] show ?thesis by simp
qed

lemma fl_le_1: "0 \<le> a \<Longrightarrow> a \<le> 1 \<Longrightarrow> fl a \<le> 1"
proof (cases "a = 0")
  case True
  then show ?thesis by (simp add: fl_def)
next
  case False
  assume h: "0 \<le> a" "a \<le> 1"
  with False have p: "0 < a" by simp
  have "binade a \<le> 52" using binade_le_6 [OF p] h by simp
  from fl_le_int [OF p _ this, of 1] h show ?thesis by simp
qed

lemma Math_round_range:
  "0 \<le> x \<Longrightarrow> x \<le> 100 \<Longrightarrow> 0 \<le> Math_round x \<and> Math_round x \<le> 100"
proof -
  assume "0 \<le> x" "x \<le> 100"
  then have "of_int 0 \<le> x + 1 / 2" "x + 1 / 2 < of_int 101" by simp_all
  then have "0 \<le> \<lfloor>x + 1 / 2\<rfloor>" "\<lfloor>x + 1 / 2\<rfloor> < 101"
    by (simp_all only: le_floor_iff floor_less_iff)
  then show ?thesis by (simp add: Math_round_def)
qed

lemma fl_1: "fl 1 = 1"
  by code_simp

lemma fl_100: "fl 100 = 100"
  by code_simp

lemma Math_round_100: "Math_round 100 = 100"
  by code_simp

subsection \<open>Recording a quiz attempt\<close>

lemma percentage_range:
  assumes "0 < t" "c \<le> t"
  shows "\<exists>s. percentage c t = Num s \<and> 0 \<le> s \<and> s \<le> 100"
proof -
  let ?q = "of_nat c / of_nat t :: rat"
  have q: "0 \<le> ?q" "?q \<le> 1" using assms by simp_all
  have f: "0 \<le> fl ?q" "fl ?q \<le> 1" using fl_nonneg [OF q(1)] fl_le_1 [OF q] by simp_all
  then have "0 \<le> fl ?q * 100" "fl ?q * 100 \<le> 100" by simp_all
  from fl_unit_range [OF this]
  have "0 \<le> Math_round (fl (fl ?q * 100)) \<and> Math_round (fl (fl ?q * 100)) \<le> 100"
    by (intro Math_round_range) simp_all
  moreover have "percentage c t = Num (Math_round (fl (fl ?q * 100)))"
    using assms(1) by (simp add: percentage_def)
  ultimately show ?thesis by simp
qed

text \<open>
  C6 (as amended). \<^verbatim>\<open>recordQuizAttempt\<close> leaves a cell that is not loaded as it is. On a
  loaded aggregate \<^verbatim>\<open>recordQuizAttempt(topicId, {correct, total})\<close> writes the entry of the
  topic and leaves every other key as it was. The new entry has the old attempts,
  unchanged and in order, followed by exactly one new attempt with the score
  \<^verbatim>\<open>Math.round((correct / total) * 100)\<close>; its \<open>bestScore\<close> is the new score when there was
  none and \<^verbatim>\<open>Math.max\<close> of the old one and the new score otherwise; its \<open>completedAt\<close> is
  set only when it was \<^verbatim>\<open>null\<close>; its schedule is a new one exactly when \<open>completedAt\<close>
  was \<^verbatim>\<open>null\<close>, and the old one otherwise. With \<open>0 < total\<close> the score is the double
  \<open>(correct / total) * 100\<close> rounded to the nearest integer, a tie going up; with
  \<open>correct \<le> total\<close> besides, it lies between 0 and 100, and a finite old best score
  becomes the maximum of the two.
\<close>

theorem recordQuizAttempt_appends:
  "recordQuizAttempt z now tid (c, t) None = None
   \<and> (\<exists>tp'.
      recordQuizAttempt z now tid (c, t) (Some p) =
        Some (p\<lparr> topics := obj_set tid tp' (topics p), lastUpdated := now \<rparr>)
    \<and> map_of (obj_set tid tp' (topics p)) tid = Some tp'
    \<and> (\<forall>k. k \<noteq> tid \<longrightarrow> map_of (obj_set tid tp' (topics p)) k = map_of (topics p) k)
    \<and> quizAttempts tp' =
        quizAttempts (existing_or_initial (topics p) tid)
          @ [\<lparr> attempt_date = now, attempt_score = percentage c t, correct = c, total = t \<rparr>]
    \<and> bestScore tp' =
        (case bestScore (existing_or_initial (topics p) tid) of
           None \<Rightarrow> Some (percentage c t)
         | Some b \<Rightarrow> Some (Math_max b (percentage c t)))
    \<and> completedAt tp' =
        (case completedAt (existing_or_initial (topics p) tid) of
           None \<Rightarrow> Some now
         | Some d \<Rightarrow> Some d)
    \<and> reviewSchedule tp' =
        (if completedAt (existing_or_initial (topics p) tid) = None
         then Some (createReviewSchedule z now)
         else reviewSchedule (existing_or_initial (topics p) tid))
    \<and> topicId tp' = topicId (existing_or_initial (topics p) tid)
    \<and> activeQuiz tp' = activeQuiz (existing_or_initial (topics p) tid)
    \<and> activeReview tp' = activeReview (existing_or_initial (topics p) tid)
    \<and> (0 < t \<longrightarrow>
          percentage c t = Num (Math_round (fl (fl (of_nat c / of_nat t) * 100))))
    \<and> (0 < t \<and> c \<le> t \<longrightarrow>
          (\<exists>s. percentage c t = Num s \<and> 0 \<le> s \<and> s \<le> 100
             \<and> (\<forall>b. bestScore (existing_or_initial (topics p) tid) = Some (Num b)
                    \<longrightarrow> bestScore tp' = Some (Num (max b s))))))"
proof -
  let ?e = "existing_or_initial (topics p) tid"
  let ?tp = "?e\<lparr> quizAttempts := quizAttempts ?e @
                 [\<lparr> attempt_date = now, attempt_score = percentage c t, correct = c, total = t \<rparr>],
               bestScore := (case bestScore ?e of None \<Rightarrow> Some (percentage c t)
                             | Some b \<Rightarrow> Some (Math_max b (percentage c t))),
               completedAt := (case completedAt ?e of None \<Rightarrow> Some now | Some d \<Rightarrow> Some d),
               reviewSchedule := (if completedAt ?e = None
                                  then Some (createReviewSchedule z now)
                                  else reviewSchedule ?e) \<rparr>"
  have none: "recordQuizAttempt z now tid (c, t) None = None"
    by (simp add: recordQuizAttempt_def)
  have run: "recordQuizAttempt z now tid (c, t) (Some p) =
      Some (p\<lparr> topics := obj_set tid ?tp (topics p), lastUpdated := now \<rparr>)"
    by (simp add: recordQuizAttempt_def Let_def)
  have frame: "map_of (obj_set tid ?tp (topics p)) tid = Some ?tp"
    "\<forall>k. k \<noteq> tid \<longrightarrow> map_of (obj_set tid ?tp (topics p)) k = map_of (topics p) k"
    by (simp_all add: map_of_obj_set)
  have fields: "quizAttempts ?tp = quizAttempts ?e @
        [\<lparr> attempt_date = now, attempt_score = percentage c t, correct = c, total = t \<rparr>]"
    "bestScore ?tp = (case bestScore ?e of None \<Rightarrow> Some (percentage c t)
                      | Some b \<Rightarrow> Some (Math_max b (percentage c t)))"
    "completedAt ?tp = (case completedAt ?e of None \<Rightarrow> Some now | Some d \<Rightarrow> Some d)"
    "reviewSchedule ?tp = (if completedAt ?e = None then Some (createReviewSchedule z now)
                           else reviewSchedule ?e)"
    "topicId ?tp = topicId ?e" "activeQuiz ?tp = activeQuiz ?e" "activeReview ?tp = activeReview ?e"
    by simp_all
  have val: "0 < t \<longrightarrow> percentage c t = Num (Math_round (fl (fl (of_nat c / of_nat t) * 100)))"
    by (simp add: percentage_def)
  have rng: "0 < t \<and> c \<le> t \<longrightarrow>
          (\<exists>s. percentage c t = Num s \<and> 0 \<le> s \<and> s \<le> 100
             \<and> (\<forall>b. bestScore ?e = Some (Num b) \<longrightarrow> bestScore ?tp = Some (Num (max b s))))"
  proof
    assume "0 < t \<and> c \<le> t"
    then obtain s where s: "percentage c t = Num s" "0 \<le> s" "s \<le> 100"
      using percentage_range [of t c] by blast
    have "\<forall>b. bestScore ?e = Some (Num b) \<longrightarrow> bestScore ?tp = Some (Num (max b s))"
      by (simp add: s(1))
    with s show "\<exists>s. percentage c t = Num s \<and> 0 \<le> s \<and> s \<le> 100
             \<and> (\<forall>b. bestScore ?e = Some (Num b) \<longrightarrow> bestScore ?tp = Some (Num (max b s)))"
      by blast
  qed
  from run frame fields val rng
  have "\<exists>tp'.
      recordQuizAttempt z now tid (c, t) (Some p) =
        Some (p\<lparr> topics := obj_set tid tp' (topics p), lastUpdated := now \<rparr>)
    \<and> map_of (obj_set tid tp' (topics p)) tid = Some tp'
    \<and> (\<forall>k. k \<noteq> tid \<longrightarrow> map_of (obj_set tid tp' (topics p)) k = map_of (topics p) k)
    \<and> quizAttempts tp' =
        quizAttempts ?e
          @ [\<lparr> attempt_date = now, attempt_score = percentage c t, correct = c, total = t \<rparr>]
    \<and> bestScore tp' =
        (case bestScore ?e of
           None \<Rightarrow> Some (percentage c t)
         | Some b \<Rightarrow> Some (Math_max b (percentage c t)))
    \<and> completedAt tp' =
        (case completedAt ?e of
           None \<Rightarrow> Some now
         | Some d \<Rightarrow> Some d)
    \<and> reviewSchedule tp' =
        (if completedAt ?e = None
         then Some (createReviewSchedule z now)
         else reviewSchedule ?e)
    \<and> topicId tp' = topicId ?e
    \<and> activeQuiz tp' = activeQuiz ?e
    \<and> activeReview tp' = activeReview ?e
    \<and> (0 < t \<longrightarrow>
          percentage c t = Num (Math_round (fl (fl (of_nat c / of_nat t) * 100))))
    \<and> (0 < t \<and> c \<le> t \<longrightarrow>
          (\<exists>s. percentage c t = Num s \<and> 0 \<le> s \<and> s \<le> 100
             \<and> (\<forall>b. bestScore ?e = Some (Num b)
                    \<longrightarrow> bestScore tp' = Some (Num (max b s)))))"
    by (intro exI [of _ ?tp] conjI)
  with none show ?thesis by (rule conjI)
qed

lemma percentage_2_3: "percentage 2 3 = Num 67"
  by code_simp

lemma percentage_23_40: "percentage 23 40 = Num 57"
  by code_simp

lemma percentage_3_2: "percentage 3 2 = Num 150"
  by code_simp

theorem recordQuizAttempt_appends_witness:
  "(0::nat) < 3 \<and> (2::nat) \<le> 3
   \<and> recordQuizAttempt (fixed_zone 0) 1000 ''travel'' (2, 3) None = None
   \<and> recordQuizAttempt (fixed_zone 0) 1000 ''travel'' (2, 3) (Some sample_attempted) =
       Some (sample_attempted
         \<lparr> topics :=
             [(''travel'',
               \<lparr> topicId = ''travel'',
                 quizAttempts = [\<lparr> attempt_date = 50, attempt_score = Num 80,
                                   correct = 4, total = 5 \<rparr>,
                                 \<lparr> attempt_date = 1000, attempt_score = Num 67,
                                   correct = 2, total = 3 \<rparr>],
                 bestScore = Some (Num 80), completedAt = Some 50,
                 reviewSchedule = Some sample_schedule,
                 activeReview = None, activeQuiz = None \<rparr>)],
           lastUpdated := 1000 \<rparr>)
   \<and> percentage 2 3 = Num (Math_round (fl (fl (of_nat 2 / of_nat 3) * 100)))
   \<and> percentage 2 3 = Num 67"
proof -
  have h: "(0::nat) < 3" "(2::nat) \<le> 3" by simp_all
  note inst = recordQuizAttempt_appends [of "fixed_zone 0" 1000 "''travel''" 2 3 sample_attempted]
  have n: "recordQuizAttempt (fixed_zone 0) 1000 ''travel'' (2, 3) None = None"
    using inst by (rule conjunct1)
  from inst have "\<exists>tp'.
      recordQuizAttempt (fixed_zone 0) 1000 ''travel'' (2, 3) (Some sample_attempted) =
        Some (sample_attempted\<lparr> topics := obj_set ''travel'' tp' (topics sample_attempted),
                                lastUpdated := 1000 \<rparr>)
    \<and> map_of (obj_set ''travel'' tp' (topics sample_attempted)) ''travel'' = Some tp'
    \<and> (\<forall>k. k \<noteq> ''travel'' \<longrightarrow>
          map_of (obj_set ''travel'' tp' (topics sample_attempted)) k
            = map_of (topics sample_attempted) k)
    \<and> quizAttempts tp' =
        quizAttempts (existing_or_initial (topics sample_attempted) ''travel'')
          @ [\<lparr> attempt_date = 1000, attempt_score = percentage 2 3, correct = 2, total = 3 \<rparr>]
    \<and> bestScore tp' =
        (case bestScore (existing_or_initial (topics sample_attempted) ''travel'') of
           None \<Rightarrow> Some (percentage 2 3)
         | Some b \<Rightarrow> Some (Math_max b (percentage 2 3)))
    \<and> completedAt tp' =
        (case completedAt (existing_or_initial (topics sample_attempted) ''travel'') of
           None \<Rightarrow> Some 1000
         | Some d \<Rightarrow> Some d)
    \<and> reviewSchedule tp' =
        (if completedAt (existing_or_initial (topics sample_attempted) ''travel'') = None
         then Some (createReviewSchedule (fixed_zone 0) 1000)
         else reviewSchedule (existing_or_initial (topics sample_attempted) ''travel''))
    \<and> topicId tp' = topicId (existing_or_initial (topics sample_attempted) ''travel'')
    \<and> activeQuiz tp' = activeQuiz (existing_or_initial (topics sample_attempted) ''travel'')
    \<and> activeReview tp' = activeReview (existing_or_initial (topics sample_attempted) ''travel'')
    \<and> ((0::nat) < 3 \<longrightarrow>
          percentage 2 3 = Num (Math_round (fl (fl (of_nat 2 / of_nat 3) * 100))))
    \<and> ((0::nat) < 3 \<and> (2::nat) \<le> 3 \<longrightarrow>
          (\<exists>s. percentage 2 3 = Num s \<and> 0 \<le> s \<and> s \<le> 100
             \<and> (\<forall>b. bestScore (existing_or_initial (topics sample_attempted) ''travel'')
                        = Some (Num b)
                    \<longrightarrow> bestScore tp' = Some (Num (max b s)))))"
    by (rule conjunct2)
  then obtain tp' where
    val: "(0::nat) < 3 \<longrightarrow>
          percentage 2 3 = Num (Math_round (fl (fl (of_nat 2 / of_nat 3) * 100)))"
    by (elim exE conjE)
  from val h(1) have v: "percentage 2 3 = Num (Math_round (fl (fl (of_nat 2 / of_nat 3) * 100)))"
    by (rule mp)
  have r: "recordQuizAttempt (fixed_zone 0) 1000 ''travel'' (2, 3) (Some sample_attempted) =
       Some (sample_attempted
         \<lparr> topics :=
             [(''travel'',
               \<lparr> topicId = ''travel'',
                 quizAttempts = [\<lparr> attempt_date = 50, attempt_score = Num 80,
                                   correct = 4, total = 5 \<rparr>,
                                 \<lparr> attempt_date = 1000, attempt_score = Num 67,
                                   correct = 2, total = 3 \<rparr>],
                 bestScore = Some (Num 80), completedAt = Some 50,
                 reviewSchedule = Some sample_schedule,
                 activeReview = None, activeQuiz = None \<rparr>)],
           lastUpdated := 1000 \<rparr>)"
    by (simp add: recordQuizAttempt_def Let_def percentage_2_3 existing_or_initial_def
        sample_attempted_def)
  from h n r v percentage_2_3 show ?thesis by (intro conjI)
qed

text \<open>
  The claim as stated fails. An empty quiz (\<open>total = 0\<close>) stores \<^verbatim>\<open>NaN\<close>, and
  \<open>correct > total\<close> stores more than 100. For 23 of 40 the double \<open>(23 / 40) * 100\<close> is
  below 57.5, so that the stored score is 57, where \<open>100 * 23 / 40\<close> rounded is 58.
\<close>

theorem recordQuizAttempt_score_counterexample:
  "recordQuizAttempt (fixed_zone 0) 1000 ''food'' (0, 0) (Some (createInitialProgress 0)) =
     Some \<lparr> version = 1,
            topics = [(''food'',
                       \<lparr> topicId = ''food'',
                         quizAttempts = [\<lparr> attempt_date = 1000, attempt_score = NaN,
                                           correct = 0, total = 0 \<rparr>],
                         bestScore = Some NaN, completedAt = Some 1000,
                         reviewSchedule = Some (createReviewSchedule (fixed_zone 0) 1000),
                         activeReview = None, activeQuiz = None \<rparr>)],
            lastUpdated = 1000,
            dismissedReviewAlerts = None \<rparr>
   \<and> percentage 3 2 = Num 150
   \<and> percentage 23 40 = Num 57
   \<and> Math_round (100 * 23 / 40) = 58"
proof -
  have "percentage 0 0 = NaN"
    by (simp add: percentage_def)
  moreover have "Math_round (100 * 23 / 40) = 58"
    by code_simp
  ultimately show ?thesis
    by (simp add: recordQuizAttempt_def createInitialProgress_def existing_or_initial_def
        createInitialTopicProgress_def Let_def percentage_3_2 percentage_23_40)
qed

subsection \<open>Re-scheduling a review\<close>

text \<open>
  C5, evaluated where it fails. The filter of \<^verbatim>\<open>scheduleReview\<close> drops every key that
  starts with \<^verbatim>\<open>`${topicId}-`\<close>. With the topics \<open>food\<close> and \<open>food-drinks\<close>, re-scheduling
  \<open>food\<close> also drops the dismissed alert \<open>food-drinks-oneDay\<close> of the other topic.
\<close>

theorem scheduleReview_prefix_overreach:
  "isReviewAlertDismissed ''food-drinks'' oneDay (Some sample_progress)
   \<and> dismissedReviewAlerts (the (scheduleReview (fixed_zone 0) 1000 ''food'' (Some sample_progress)))
       = Some [''travel-oneWeek'']
   \<and> \<not> isReviewAlertDismissed ''food-drinks'' oneDay
         (scheduleReview (fixed_zone 0) 1000 ''food'' (Some sample_progress))"
  by (simp add: isReviewAlertDismissed_def scheduleReview_def sample_progress_def Let_def
      alert_key_def reviewType_name_def startsWith_def)

subsection \<open>Due reviews\<close>

lemma foldl_pushDue:
  "foldl (pushDue now) acc tps = acc @ concat (map (pushDue now []) tps)"
proof (induction tps arbitrary: acc)
  case Nil
  then show ?case by simp
next
  case (Cons tp tps)
  have "pushDue now acc tp = acc @ pushDue now [] tp"
    by (simp add: pushDue_def Let_def)
  then show ?case using Cons.IH by simp
qed

text \<open>
  C2 (as amended). \<^verbatim>\<open>getDueReviews\<close> walks the topics in the order of
  \<^verbatim>\<open>Object.values\<close> and returns at most one entry for each: the \<open>oneDay\<close> slot when it
  is not completed and its due date has passed, otherwise the \<open>oneWeek\<close> slot when that
  one is not completed and its due date has passed, otherwise nothing. A topic whose
  two slots are both due contributes its \<open>oneDay\<close> entry only.
\<close>

theorem getDueReviews_one_per_topic:
  "getDueReviews now None = []
   \<and> getDueReviews now (Some p) =
       concat (map
         (\<lambda>tp. case reviewSchedule tp of
                  None \<Rightarrow> []
                | Some s \<Rightarrow>
                    if \<not> completed (oneDaySlot s) \<and> date (oneDaySlot s) \<le> now
                    then [\<lparr> due_topicId = topicId tp, due_reviewType = oneDay \<rparr>]
                    else if \<not> completed (oneWeekSlot s) \<and> date (oneWeekSlot s) \<le> now
                    then [\<lparr> due_topicId = topicId tp, due_reviewType = oneWeek \<rparr>]
                    else [])
         (map snd (topics p)))
   \<and> length (getDueReviews now (Some p)) \<le> length (topics p)"
proof -
  let ?f = "\<lambda>tp. case reviewSchedule tp of
                  None \<Rightarrow> []
                | Some s \<Rightarrow>
                    if \<not> completed (oneDaySlot s) \<and> date (oneDaySlot s) \<le> now
                    then [\<lparr> due_topicId = topicId tp, due_reviewType = oneDay \<rparr>]
                    else if \<not> completed (oneWeekSlot s) \<and> date (oneWeekSlot s) \<le> now
                    then [\<lparr> due_topicId = topicId tp, due_reviewType = oneWeek \<rparr>]
                    else []"
  have one: "pushDue now [] = ?f"
    by (rule ext) (simp add: pushDue_def isReviewDue_def Let_def split: option.splits)
  have eq: "getDueReviews now (Some p) = concat (map ?f (map snd (topics p)))"
    by (simp only: getDueReviews_def option.case foldl_pushDue one append_Nil)
  have "length (concat (map ?f tps)) \<le> length tps" for tps
    by (induction tps) (auto split: option.splits)
  from this [of "map snd (topics p)"] have "length (getDueReviews now (Some p)) \<le> length (topics p)"
    unfolding eq by simp
  with eq show ?thesis by (simp add: getDueReviews_def)
qed

theorem getDueReviews_one_per_topic_witness:
  "getDueReviews 500 (Some sample_progress) =
     [\<lparr> due_topicId = ''food'', due_reviewType = oneDay \<rparr>]
   \<and> getDueReviews 150 (Some (sample_progress\<lparr>topics :=
         [(''food'', sample_topic ''food''
             (Some \<lparr> oneDaySlot = \<lparr> date = 100, completed = True \<rparr>,
                     oneWeekSlot = \<lparr> date = 120, completed = False \<rparr> \<rparr>))]\<rparr>)) =
     [\<lparr> due_topicId = ''food'', due_reviewType = oneWeek \<rparr>]"
  using getDueReviews_one_per_topic [of 500 sample_progress]
    getDueReviews_one_per_topic [of 150 "sample_progress\<lparr>topics :=
         [(''food'', sample_topic ''food''
             (Some \<lparr> oneDaySlot = \<lparr> date = 100, completed = True \<rparr>,
                     oneWeekSlot = \<lparr> date = 120, completed = False \<rparr> \<rparr>))]\<rparr>"]
  by (simp add: sample_progress_def sample_topic_def sample_schedule_def
      createInitialTopicProgress_def)

text \<open>
  The claim as stated fails: with both slots of \<open>food\<close> due, the list has the \<open>oneDay\<close>
  entry and no \<open>oneWeek\<close> entry.
\<close>

theorem getDueReviews_both_due_counterexample:
  "oneDayDue (isReviewDue 500 (reviewSchedule (sample_topic ''food'' (Some sample_schedule))))
   \<and> oneWeekDue (isReviewDue 500 (reviewSchedule (sample_topic ''food'' (Some sample_schedule))))
   \<and> map_of (topics sample_progress) ''food'' = Some (sample_topic ''food'' (Some sample_schedule))
   \<and> getDueReviews 500 (Some sample_progress) =
       [\<lparr> due_topicId = ''food'', due_reviewType = oneDay \<rparr>]
   \<and> \<lparr> due_topicId = ''food'', due_reviewType = oneWeek \<rparr>
       \<notin> set (getDueReviews 500 (Some sample_progress))"
  by (simp add: getDueReviews_def pushDue_def isReviewDue_def sample_progress_def
      sample_topic_def sample_schedule_def createInitialTopicProgress_def Let_def)

subsection \<open>The quiz session\<close>

lemma length_shuffle_loop: "length (shuffle_loop src k i xs) = length xs"
  by (induction i arbitrary: k xs) (simp_all add: Let_def)

lemma length_shuffleArray: "length (shuffleArray src xs) = length xs"
  by (simp add: shuffleArray_def length_shuffle_loop)

lemma answerQuestion_in_range:
  assumes "QuizState.currentIndex st < length (shuffledItems st)"
  shows "answerQuestion st a =
     st\<lparr> QuizState.currentIndex := QuizState.currentIndex st + 1,
         QuizState.results := QuizState.results st @
           [\<lparr> item = shuffledItems st ! QuizState.currentIndex st,
              userAnswer = fst a, isCorrect = snd a \<rparr>] \<rparr>"
  using assms by (simp add: answerQuestion_def nextQuestion_def recordAnswer_def currentItem_def)

lemma run_answers:
  assumes "QuizState.currentIndex st + length answers \<le> length (shuffledItems st)"
  shows "shuffledItems (foldl answerQuestion st answers) = shuffledItems st
    \<and> QuizState.currentIndex (foldl answerQuestion st answers)
        = QuizState.currentIndex st + length answers
    \<and> map (\<lambda>r. (userAnswer r, QuizResult.isCorrect r))
          (QuizState.results (foldl answerQuestion st answers))
        = map (\<lambda>r. (userAnswer r, QuizResult.isCorrect r)) (QuizState.results st) @ answers
    \<and> map item (QuizState.results (foldl answerQuestion st answers))
        = map item (QuizState.results st)
          @ take (length answers) (drop (QuizState.currentIndex st) (shuffledItems st))"
  using assms
proof (induction answers arbitrary: st)
  case Nil
  then show ?case by simp
next
  case (Cons a answers)
  let ?st = "answerQuestion st a"
  have lt: "QuizState.currentIndex st < length (shuffledItems st)"
    using Cons.prems by simp
  have step: "shuffledItems ?st = shuffledItems st"
    "QuizState.currentIndex ?st = QuizState.currentIndex st + 1"
    "QuizState.results ?st = QuizState.results st @
       [\<lparr> item = shuffledItems st ! QuizState.currentIndex st,
          userAnswer = fst a, isCorrect = snd a \<rparr>]"
    by (simp_all add: answerQuestion_in_range [OF lt])
  have "QuizState.currentIndex ?st + length answers \<le> length (shuffledItems ?st)"
    using Cons.prems step by simp
  from Cons.IH [OF this]
  show ?case
    using lt by (simp add: step take_Suc_conv_app_nth Cons_nth_drop_Suc [symmetric]
        drop_Suc tl_drop [symmetric] del: drop_tl)
qed


text \<open>
  C7. A session built over a non-empty list of \<open>N\<close> items with no saved position, after
  \<open>N\<close> answers each followed by \<^verbatim>\<open>nextQuestion\<close>, is complete; its results are the \<open>N\<close>
  answers in order, one for each shuffled item, and its score is the number of answers
  recorded as correct out of \<open>N\<close>. \<^verbatim>\<open>resetQuiz\<close> then gives a session that is not
  complete, at index 0, with no results, whose score is 0 out of \<open>N\<close>: the score is
  computed from the results the state holds.
\<close>

theorem quiz_session_complete_then_reset:
  assumes "items \<noteq> []" and "length answers = length items"
  shows "isComplete (foldl answerQuestion (useTopicQuiz src items None) answers)
    \<and> score (foldl answerQuestion (useTopicQuiz src items None) answers)
        = (length (filter snd answers), length items)
    \<and> map (\<lambda>r. (userAnswer r, QuizResult.isCorrect r))
          (QuizState.results (foldl answerQuestion (useTopicQuiz src items None) answers))
        = answers
    \<and> map item (QuizState.results (foldl answerQuestion (useTopicQuiz src items None) answers))
        = shuffledItems (useTopicQuiz src items None)
    \<and> \<not> isComplete (useTopicQuiz src items None)
    \<and> \<not> isComplete
          (resetQuiz src' now items (foldl answerQuestion (useTopicQuiz src items None) answers))
    \<and> QuizState.currentIndex
          (resetQuiz src' now items (foldl answerQuestion (useTopicQuiz src items None) answers))
        = 0
    \<and> QuizState.results
          (resetQuiz src' now items (foldl answerQuestion (useTopicQuiz src items None) answers))
        = []
    \<and> score
          (resetQuiz src' now items (foldl answerQuestion (useTopicQuiz src items None) answers))
        = (0, length items)"
proof -
  let ?st0 = "useTopicQuiz src items None"
  let ?st1 = "foldl answerQuestion ?st0 answers"
  have st0: "QuizState.currentIndex ?st0 = 0" "QuizState.results ?st0 = []"
    "length (shuffledItems ?st0) = length items"
    by (simp_all add: useTopicQuiz_def length_shuffleArray)
  have "QuizState.currentIndex ?st0 + length answers \<le> length (shuffledItems ?st0)"
    using assms(2) st0 by simp
  from run_answers [OF this]
  have st1: "shuffledItems ?st1 = shuffledItems ?st0"
    "QuizState.currentIndex ?st1 = length answers"
    "map (\<lambda>r. (userAnswer r, QuizResult.isCorrect r)) (QuizState.results ?st1) = answers"
    "map item (QuizState.results ?st1) = shuffledItems ?st0"
    using st0 assms(2) by simp_all
  have "length (filter QuizResult.isCorrect (QuizState.results ?st1))
      = length (filter snd (map (\<lambda>r. (userAnswer r, QuizResult.isCorrect r))
          (QuizState.results ?st1)))"
    by (simp add: filter_map comp_def)
  then have cnt: "length (filter QuizResult.isCorrect (QuizState.results ?st1))
      = length (filter snd answers)"
    by (simp only: st1(3))
  have done1: "isComplete ?st1" "score ?st1 = (length (filter snd answers), length items)"
    using st0 st1 assms(2) cnt by (simp_all add: isComplete_def score_def)
  have fresh: "\<not> isComplete ?st0"
    using assms(1) st0 by (simp add: isComplete_def)
  have reset: "\<not> isComplete (resetQuiz src' now items ?st1)"
    "QuizState.currentIndex (resetQuiz src' now items ?st1) = 0"
    "QuizState.results (resetQuiz src' now items ?st1) = []"
    "score (resetQuiz src' now items ?st1) = (0, length items)"
    using assms(1) by (simp_all add: resetQuiz_def isComplete_def score_def length_shuffleArray)
  from done1 st1(3,4) fresh reset show ?thesis by blast
qed

theorem quiz_session_complete_then_reset_witness:
  "[\<lparr> item_id = ''w1'', word = ''apple'' \<rparr>, \<lparr> item_id = ''w2'', word = ''bread'' \<rparr>] \<noteq> []
   \<and> length [(''apple'', True), (''bred'', False)]
       = length [\<lparr> item_id = ''w1'', word = ''apple'' \<rparr>, \<lparr> item_id = ''w2'', word = ''bread'' \<rparr>]
   \<and> shuffledItems (useTopicQuiz (\<lambda>k. 0)
         [\<lparr> item_id = ''w1'', word = ''apple'' \<rparr>, \<lparr> item_id = ''w2'', word = ''bread'' \<rparr>] None)
       = [\<lparr> item_id = ''w2'', word = ''bread'' \<rparr>, \<lparr> item_id = ''w1'', word = ''apple'' \<rparr>]
   \<and> isComplete (foldl answerQuestion (useTopicQuiz (\<lambda>k. 0)
         [\<lparr> item_id = ''w1'', word = ''apple'' \<rparr>, \<lparr> item_id = ''w2'', word = ''bread'' \<rparr>] None)
         [(''apple'', True), (''bred'', False)])
   \<and> score (foldl answerQuestion (useTopicQuiz (\<lambda>k. 0)
         [\<lparr> item_id = ''w1'', word = ''apple'' \<rparr>, \<lparr> item_id = ''w2'', word = ''bread'' \<rparr>] None)
         [(''apple'', True), (''bred'', False)]) = (1, 2)
   \<and> score (resetQuiz (\<lambda>k. 0) 99
         [\<lparr> item_id = ''w1'', word = ''apple'' \<rparr>, \<lparr> item_id = ''w2'', word = ''bread'' \<rparr>]
         (foldl answerQuestion (useTopicQuiz (\<lambda>k. 0)
           [\<lparr> item_id = ''w1'', word = ''apple'' \<rparr>, \<lparr> item_id = ''w2'', word = ''bread'' \<rparr>] None)
           [(''apple'', True), (''bred'', False)])) = (0, 2)
   \<and> \<not> isComplete (resetQuiz (\<lambda>k. 0) 99
         [\<lparr> item_id = ''w1'', word = ''apple'' \<rparr>, \<lparr> item_id = ''w2'', word = ''bread'' \<rparr>]
         (foldl answerQuestion (useTopicQuiz (\<lambda>k. 0)
           [\<lparr> item_id = ''w1'', word = ''apple'' \<rparr>, \<lparr> item_id = ''w2'', word = ''bread'' \<rparr>] None)
           [(''apple'', True), (''bred'', False)]))"
proof -
  let ?items = "[\<lparr> item_id = ''w1'', word = ''apple'' \<rparr>, \<lparr> item_id = ''w2'', word = ''bread'' \<rparr>]"
  let ?answers = "[(''apple'', True), (''bred'', False)]"
  have h: "?items \<noteq> []" "length ?answers = length ?items" by simp_all
  have sh: "shuffledItems (useTopicQuiz (\<lambda>k. 0) ?items None)
      = [\<lparr> item_id = ''w2'', word = ''bread'' \<rparr>, \<lparr> item_id = ''w1'', word = ''apple'' \<rparr>]"
    by (simp add: useTopicQuiz_def shuffleArray_def Math_random_def Let_def)
  from quiz_session_complete_then_reset [OF h, of "\<lambda>k. 0" "\<lambda>k. 0" 99] h sh
  show ?thesis by simp
qed

subsection \<open>The Soundex code\<close>

lemma take4_soundex_loop:
  "take 4 (soundex_loop acc prev cs @ pad) = take 4 (acc @ loop_digits prev cs @ pad)"
proof (induction acc prev cs rule: soundex_loop.induct)
  case (1 soundex prevCode)
  then show ?case by simp
next
  case (2 soundex prevCode c rest)
  show ?case
  proof (cases "length soundex < 4")
    case False
    then show ?thesis by simp
  next
    case True
    show ?thesis
    proof (cases "codes c")
      case None
      with True 2 show ?thesis by (simp add: Let_def)
    next
      case (Some d)
      with True 2 show ?thesis by (simp add: Let_def)
    qed
  qed
qed

lemma loop_digits_collapsed:
  "loop_digits prev cs =
     (case prev of
        None \<Rightarrow> remdups_adj (List.map_filter codes cs)
      | Some d \<Rightarrow> tl (remdups_adj (d # List.map_filter codes cs)))"
proof (induction cs arbitrary: prev)
  case Nil
  then show ?case by (simp add: List.map_filter_simps split: option.splits)
next
  case (Cons c cs)
  show ?case
  proof (cases "codes c")
    case None
    then show ?thesis using Cons.IH [of prev]
      by (cases prev) (simp_all add: List.map_filter_simps)
  next
    case (Some d)
    then show ?thesis using Cons.IH [of "Some d"]
      by (cases prev) (auto simp: List.map_filter_simps)
  qed
qed

lemma soundexCode_collapsed: "soundexCode w = soundex_collapsed w"
proof (cases "filter (\<lambda>c. c \<in> set upper_letters) (toUpperCase w) = []")
  case True
  then show ?thesis
    by (auto simp: soundexCode_def soundex_collapsed_def Let_def toUpperCase_def)
next
  case False
  let ?n = "filter (\<lambda>c. c \<in> set upper_letters) (toUpperCase w)"
  from False have w: "w \<noteq> []" by (auto simp: toUpperCase_def)
  have "soundexCode w = take 4 (soundex_loop [hd ?n] (codes (hd ?n)) (tl ?n) @ ''000'')"
    using False w by (simp add: soundexCode_def Let_def del: take_append)
  also have "\<dots> = take 4 ([hd ?n] @ loop_digits (codes (hd ?n)) (tl ?n) @ ''000'')"
    by (rule take4_soundex_loop)
  also have "\<dots> = soundex_collapsed w"
    using False
    by (simp add: soundex_collapsed_def Let_def loop_digits_collapsed del: take_append)
  finally show ?thesis .
qed

lemma length_take4_pad: "length (take 4 (x # ys @ ''000'')) = 4"
proof -
  have "(4::nat) \<le> length (x # ys @ ''000'')" by simp
  then show ?thesis by (simp only: length_take min.absorb2)
qed

lemma soundex_collapsed_length:
  "soundex_collapsed w = [] \<or> length (soundex_collapsed w) = 4"
  by (simp only: soundex_collapsed_def Let_def length_take4_pad split: if_splits) simp

lemma soundex_collapsed_empty:
  "soundex_collapsed w = [] \<longleftrightarrow> (\<forall>c \<in> set w. upper_char c \<notin> set upper_letters)"
  by (auto simp: soundex_collapsed_def Let_def toUpperCase_def filter_empty_conv)


text \<open>
  C4 (as amended). \<^verbatim>\<open>soundexCode(word)\<close> is the reference in which a letter without a
  code does not reset the preceding code: the first letter is kept, the later letters
  are mapped through the table, those without a code are dropped, of each run of equal
  codes (the first letter's code leading) one digit is kept, and the result is padded
  with \<open>0\<close> and cut to four characters. The result has four characters, or is empty, and
  it is empty exactly for a word without a letter; \<open>Robert\<close> and \<open>Rupert\<close> both give
  \<open>R163\<close>.
\<close>

theorem soundexCode_is_collapsed_reference:
  "soundexCode w = soundex_collapsed w
   \<and> (soundexCode w = [] \<or> length (soundexCode w) = 4)
   \<and> (soundexCode w = [] \<longleftrightarrow> (\<forall>c \<in> set w. upper_char c \<notin> set upper_letters))
   \<and> soundexCode ''Robert'' = ''R163''
   \<and> soundexCode ''Rupert'' = ''R163''"
proof -
  have "soundexCode ''Robert'' = ''R163''" "soundexCode ''Rupert'' = ''R163''"
    by (simp_all add: soundexCode_def toUpperCase_def upper_char_def lower_letters_def
        upper_letters_def codes_def Let_def)
  then show ?thesis
    using soundex_collapsed_length [of w] soundex_collapsed_empty [of w]
    by (simp add: soundexCode_collapsed)
qed

theorem soundexCode_is_collapsed_reference_witness:
  "soundexCode ''Tymczak'' = ''T520''
   \<and> soundex_collapsed ''Tymczak'' = ''T520''
   \<and> soundexCode ''1 2-3'' = []
   \<and> upper_char CHR ''1'' \<notin> set upper_letters"
proof -
  have a: "soundex_collapsed ''Tymczak'' = ''T520''"
    by (simp add: soundex_collapsed_def toUpperCase_def upper_char_def lower_letters_def
        upper_letters_def codes_def Let_def List.map_filter_simps)
  have b: "\<forall>c \<in> set ''1 2-3''. upper_char c \<notin> set upper_letters"
    by (simp add: upper_char_def lower_letters_def upper_letters_def)
  have c: "soundexCode ''Tymczak'' = soundex_collapsed ''Tymczak''"
    using soundexCode_is_collapsed_reference [of "''Tymczak''"] by blast
  have d: "soundexCode ''1 2-3'' = []"
    using soundexCode_is_collapsed_reference [of "''1 2-3''"] b by blast
  have e: "upper_char CHR ''1'' \<notin> set upper_letters"
    using b by simp
  from a c d e show ?thesis by simp
qed

text \<open>
  The claim as stated fails: in \<open>bob\<close> the vowel stands between two letters of code 1.
  The reference of the specification, where the vowel resets, gives \<open>B100\<close>; the code
  keeps \<^verbatim>\<open>prevCode\<close> over the vowel and gives \<open>B000\<close>.
\<close>

theorem soundexCode_vowel_counterexample:
  "soundexCode ''bob'' = ''B000'' \<and> soundex_spec ''bob'' = ''B100''
   \<and> soundexCode ''Tymczak'' = ''T520'' \<and> soundex_spec ''Tymczak'' = ''T522''"
  by (simp add: soundexCode_def soundex_spec_def toUpperCase_def upper_char_def
      lower_letters_def upper_letters_def codes_def Let_def)

subsection \<open>The word-match score\<close>

lemma match_loop_card:
  "finite S \<Longrightarrow> match_loop m S ws = m + card (set ws \<inter> S)"
proof (induction ws arbitrary: m S)
  case Nil
  then show ?case by simp
next
  case (Cons w ws)
  show ?case
  proof (cases "w \<in> S")
    case True
    have "insert w (set ws) \<inter> S = insert w (set ws \<inter> (S - {w}))"
      using True by auto
    moreover have "w \<notin> set ws \<inter> (S - {w})" by simp
    moreover have "finite (set ws \<inter> (S - {w}))" by simp
    ultimately have "card (insert w (set ws) \<inter> S) = Suc (card (set ws \<inter> (S - {w})))"
      by simp
    with True Cons.IH [of "S - {w}" "m + 1"] Cons.prems show ?thesis by simp
  next
    case False
    then have "insert w (set ws) \<inter> S = set ws \<inter> S" by auto
    with False Cons.IH [of S m] Cons.prems show ?thesis by simp
  qed
qed

text \<open>
  What the code computes: the number of distinct words that are both recognized and
  expected, over the length of the expected list with its repetitions.
\<close>

lemma calculateWordMatchScore_distinct:
  "calculateWordMatchScore rs es =
     (if es = [] then (100, 0)
      else if rs = [] then (0, 0)
      else (fl (fl (of_nat (card (set rs \<inter> set es)) / of_nat (length es)) * 100),
            card (set rs \<inter> set es)))"
  by (simp add: calculateWordMatchScore_def match_loop_card Let_def)

text \<open>
  C1, evaluated where it fails. The recognized words are exactly the expected words
  \<open>the cat the\<close>; the \<^verbatim>\<open>Set\<close> holds \<open>the\<close> once, so the second \<open>the\<close> is not matched:
  two words are matched and the score is the double \<open>(2 / 3) * 100\<close>, which is
  66.66666666666666 and not 100; \<^verbatim>\<open>evaluatePronunciation\<close> rounds it to 67.
\<close>

lemma two_thirds_percent: "fl (fl (2 / 3) * 100) = 2345624805922133 / 35184372088832"
  by code_simp

lemma Math_round_two_thirds_percent: "Math_round (2345624805922133 / 35184372088832) = 67"
  by code_simp

theorem calculateWordMatchScore_repeated_word:
  "calculateWordMatchScore [''the'', ''cat'', ''the''] [''the'', ''cat'', ''the'']
     = (2345624805922133 / 35184372088832, 2)
   \<and> fst (calculateWordMatchScore [''the'', ''cat'', ''the''] [''the'', ''cat'', ''the'']) \<noteq> 100
   \<and> Math_round (fst (calculateWordMatchScore [''the'', ''cat'', ''the'']
                          [''the'', ''cat'', ''the''])) = 67
   \<and> calculateWordMatchScore [''the'', ''cat''] [] = (100, 0)
   \<and> calculateWordMatchScore [] [''the'', ''cat''] = (0, 0)"
  by (simp add: calculateWordMatchScore_def Let_def two_thirds_percent
      Math_round_two_thirds_percent)

subsection \<open>The correction pass of the translation check\<close>

lemma normalize_user: "normalizeForComparison ''I like tea'' = ''i like tea''"
  by (simp add: normalizeForComparison_def toLowerCase_def lower_char_def upper_letters_def
      lower_letters_def is_punctuation_def is_quote_def is_space_def trim_def)

lemma normalize_ref: "normalizeForComparison ''I like tea.'' = ''i like tea''"
  by (simp add: normalizeForComparison_def toLowerCase_def lower_char_def upper_letters_def
      lower_letters_def is_punctuation_def is_quote_def is_space_def trim_def)

lemma sim_100: "calculateSimilarity ''I like tea'' ''I like tea.'' = 100"
  by (simp add: calculateSimilarity_def normalize_user normalize_ref Let_def
      fl_1 fl_100 Math_round_100)


lemma normalize_tense: "normalizeForComparison ''Consider the past tense'' = ''consider the past tense''"
  by (simp add: normalizeForComparison_def toLowerCase_def lower_char_def upper_letters_def
      lower_letters_def is_punctuation_def is_quote_def is_space_def trim_def)

lemma sample_suggestions_kept:
  "filterContradictorySuggestions ''I like tea'' [''Add an article''] = [''Add an article'']"
proof -
  have q1: "quotedTerms ''Add an article'' = []"
    by (simp add: is_quote_def)
  show ?thesis
    by (simp add: filterContradictorySuggestions_def q1 del: quotedTerms.simps)
qed

lemma sample_errors_kept:
  "filterContradictoryGrammarErrors ''I like tea''
      [\<lparr> message = ''Tense'', err_context = ''like'', suggestion = ''Consider the past tense'' \<rparr>]
    = [\<lparr> message = ''Tense'', err_context = ''like'', suggestion = ''Consider the past tense'' \<rparr>]"
proof -
  have low: "toLowerCase ''Consider the past tense'' = ''consider the past tense''"
    by (simp add: toLowerCase_def lower_char_def upper_letters_def lower_letters_def)
  have q2: "quotedTerms ''consider the past tense'' = []"
    by (simp add: is_quote_def)
  have inc: "\<not> str_includes ''i like tea'' ''consider the past tense''"
    by (simp add: startsWith_def)
  show ?thesis
    by (simp add: filterContradictoryGrammarErrors_def low q2 normalize_user normalize_tense inc
        del: quotedTerms.simps str_includes.simps)
qed

lemma sample_judgment_corrected:
  "correctedResult ''I like tea'' (sample_judgment\<lparr>TranslationCheckResult.score := x\<rparr>)
     = sample_judgment\<lparr>TranslationCheckResult.score := x\<rparr>"
  by (simp add: correctedResult_def sample_judgment_def sample_suggestions_kept sample_errors_kept)

text \<open>
  C3 (as amended). The correction pass first removes the contradictory feedback
  (\<open>correctedResult\<close>: the suggestions and grammar errors are the filtered ones,
  \<open>grammarCorrect\<close> says whether an error is left, and the score is boosted only when
  something was removed). A result with an empty reference translation is returned so,
  with no similarity boost. With a reference: for a similarity of at least 90 and a
  score so far below 90, the score becomes 95, \<open>isCorrect\<close> true, and all grammar errors
  and suggestions are cleared; for a similarity of at least 80 (and below 90) and a score
  so far below 80, the score becomes 85, \<open>isCorrect\<close> true, and of more than two
  suggestions the first is kept; in every other case, and so for a score so far of at
  least 90 (at least 80), the result so far is returned unchanged. Hence with a reference
  a similarity of at least 90 gives a final score of at least 90, and one of at least 80
  a final score of at least 80.
\<close>

theorem correctScoreIfSimilar_boost:
  "(referenceTranslation r = [] \<longrightarrow> correctScoreIfSimilar u r = correctedResult u r)
   \<and> (referenceTranslation r \<noteq> []
        \<and> 90 \<le> calculateSimilarity u (referenceTranslation r)
        \<and> TranslationCheckResult.score (correctedResult u r) < 90 \<longrightarrow>
        correctScoreIfSimilar u r =
          (correctedResult u r)
            \<lparr> TranslationCheckResult.score := 95,
              TranslationCheckResult.isCorrect := True,
              feedback := ''Excellent! Your translation matches the reference very closely.'',
              suggestions := [],
              grammarErrors := [],
              grammarCorrect := True \<rparr>)
   \<and> (referenceTranslation r \<noteq> []
        \<and> 80 \<le> calculateSimilarity u (referenceTranslation r)
        \<and> calculateSimilarity u (referenceTranslation r) < 90
        \<and> TranslationCheckResult.score (correctedResult u r) < 80 \<longrightarrow>
        correctScoreIfSimilar u r =
          (correctedResult u r)
            \<lparr> TranslationCheckResult.score := 85,
              TranslationCheckResult.isCorrect := True,
              feedback := (if feedback (correctedResult u r) \<noteq> []
                           then feedback (correctedResult u r)
                           else ''Good translation with minor differences.''),
              suggestions := (if length (suggestions (correctedResult u r)) > 2
                              then take 1 (suggestions (correctedResult u r))
                              else suggestions (correctedResult u r)) \<rparr>)
   \<and> (referenceTranslation r \<noteq> []
        \<and> \<not> (90 \<le> calculateSimilarity u (referenceTranslation r)
              \<and> TranslationCheckResult.score (correctedResult u r) < 90)
        \<and> \<not> (80 \<le> calculateSimilarity u (referenceTranslation r)
              \<and> TranslationCheckResult.score (correctedResult u r) < 80) \<longrightarrow>
        correctScoreIfSimilar u r = correctedResult u r)
   \<and> (referenceTranslation r \<noteq> [] \<and> 90 \<le> calculateSimilarity u (referenceTranslation r) \<longrightarrow>
        90 \<le> TranslationCheckResult.score (correctScoreIfSimilar u r))
   \<and> (referenceTranslation r \<noteq> [] \<and> 80 \<le> calculateSimilarity u (referenceTranslation r) \<longrightarrow>
        80 \<le> TranslationCheckResult.score (correctScoreIfSimilar u r))
   \<and> suggestions (correctedResult u r) = filterContradictorySuggestions u (suggestions r)
   \<and> grammarErrors (correctedResult u r) = filterContradictoryGrammarErrors u (grammarErrors r)
   \<and> grammarCorrect (correctedResult u r) = (grammarErrors (correctedResult u r) = [])
   \<and> TranslationCheckResult.isCorrect (correctedResult u r) = TranslationCheckResult.isCorrect r
   \<and> referenceTranslation (correctedResult u r) = referenceTranslation r
   \<and> (length (suggestions (correctedResult u r)) = length (suggestions r)
        \<and> length (grammarErrors (correctedResult u r)) = length (grammarErrors r) \<longrightarrow>
        TranslationCheckResult.score (correctedResult u r) = TranslationCheckResult.score r
        \<and> feedback (correctedResult u r) = feedback r)"
proof -
  have ref: "referenceTranslation r = [] \<longrightarrow> correctScoreIfSimilar u r = correctedResult u r"
    by (simp add: correctScoreIfSimilar_def Let_def)
  have hi: "referenceTranslation r \<noteq> []
        \<and> 90 \<le> calculateSimilarity u (referenceTranslation r)
        \<and> TranslationCheckResult.score (correctedResult u r) < 90 \<longrightarrow>
        correctScoreIfSimilar u r =
          (correctedResult u r)
            \<lparr> TranslationCheckResult.score := 95,
              TranslationCheckResult.isCorrect := True,
              feedback := ''Excellent! Your translation matches the reference very closely.'',
              suggestions := [],
              grammarErrors := [],
              grammarCorrect := True \<rparr>"
    by (simp add: correctScoreIfSimilar_def Let_def max_def)
  have mid: "referenceTranslation r \<noteq> []
        \<and> 80 \<le> calculateSimilarity u (referenceTranslation r)
        \<and> calculateSimilarity u (referenceTranslation r) < 90
        \<and> TranslationCheckResult.score (correctedResult u r) < 80 \<longrightarrow>
        correctScoreIfSimilar u r =
          (correctedResult u r)
            \<lparr> TranslationCheckResult.score := 85,
              TranslationCheckResult.isCorrect := True,
              feedback := (if feedback (correctedResult u r) \<noteq> []
                           then feedback (correctedResult u r)
                           else ''Good translation with minor differences.''),
              suggestions := (if length (suggestions (correctedResult u r)) > 2
                              then take 1 (suggestions (correctedResult u r))
                              else suggestions (correctedResult u r)) \<rparr>"
    by (simp add: correctScoreIfSimilar_def Let_def max_def)
  have rest: "referenceTranslation r \<noteq> []
        \<and> \<not> (90 \<le> calculateSimilarity u (referenceTranslation r)
              \<and> TranslationCheckResult.score (correctedResult u r) < 90)
        \<and> \<not> (80 \<le> calculateSimilarity u (referenceTranslation r)
              \<and> TranslationCheckResult.score (correctedResult u r) < 80) \<longrightarrow>
        correctScoreIfSimilar u r = correctedResult u r"
    by (simp add: correctScoreIfSimilar_def Let_def)
  have b90: "referenceTranslation r \<noteq> [] \<and> 90 \<le> calculateSimilarity u (referenceTranslation r) \<longrightarrow>
        90 \<le> TranslationCheckResult.score (correctScoreIfSimilar u r)"
    by (simp add: correctScoreIfSimilar_def Let_def)
  have b80: "referenceTranslation r \<noteq> [] \<and> 80 \<le> calculateSimilarity u (referenceTranslation r) \<longrightarrow>
        80 \<le> TranslationCheckResult.score (correctScoreIfSimilar u r)"
    by (simp add: correctScoreIfSimilar_def Let_def)
  have cr: "suggestions (correctedResult u r) = filterContradictorySuggestions u (suggestions r)"
    "grammarErrors (correctedResult u r) = filterContradictoryGrammarErrors u (grammarErrors r)"
    "grammarCorrect (correctedResult u r) = (grammarErrors (correctedResult u r) = [])"
    "TranslationCheckResult.isCorrect (correctedResult u r) = TranslationCheckResult.isCorrect r"
    "referenceTranslation (correctedResult u r) = referenceTranslation r"
    by (simp_all add: correctedResult_def Let_def)
  have same: "length (suggestions (correctedResult u r)) = length (suggestions r)
        \<and> length (grammarErrors (correctedResult u r)) = length (grammarErrors r) \<longrightarrow>
        TranslationCheckResult.score (correctedResult u r) = TranslationCheckResult.score r
        \<and> feedback (correctedResult u r) = feedback r"
    unfolding cr by (simp add: correctedResult_def Let_def)
  from ref hi mid rest b90 b80 cr same show ?thesis by (intro conjI)
qed

theorem correctScoreIfSimilar_boost_witness:
  "calculateSimilarity ''I like tea''
       (referenceTranslation (sample_judgment\<lparr>TranslationCheckResult.score := 60\<rparr>)) = 100
   \<and> correctedResult ''I like tea'' (sample_judgment\<lparr>TranslationCheckResult.score := 60\<rparr>)
       = sample_judgment\<lparr>TranslationCheckResult.score := 60\<rparr>
   \<and> correctScoreIfSimilar ''I like tea'' (sample_judgment\<lparr>TranslationCheckResult.score := 60\<rparr>)
       = \<lparr> grammarCorrect = True, grammarErrors = [], isCorrect = True, score = 95,
           feedback = ''Excellent! Your translation matches the reference very closely.'',
           suggestions = [], referenceTranslation = ''I like tea.'' \<rparr>
   \<and> correctScoreIfSimilar ''I like tea'' (sample_judgment\<lparr>referenceTranslation := []\<rparr>)
       = correctedResult ''I like tea'' (sample_judgment\<lparr>referenceTranslation := []\<rparr>)"
proof -
  let ?r = "sample_judgment\<lparr>TranslationCheckResult.score := 60\<rparr>"
  have ref: "referenceTranslation ?r = ''I like tea.''"
    by (simp add: sample_judgment_def)
  have h: "referenceTranslation ?r \<noteq> []"
    by (simp add: ref)
  have sim: "calculateSimilarity ''I like tea'' (referenceTranslation ?r) = 100"
    by (simp only: ref sim_100)
  have cr: "correctedResult ''I like tea'' ?r = ?r"
    by (rule sample_judgment_corrected)
  have "correctScoreIfSimilar ''I like tea'' ?r =
          (correctedResult ''I like tea'' ?r)
            \<lparr> TranslationCheckResult.score := 95,
              TranslationCheckResult.isCorrect := True,
              feedback := ''Excellent! Your translation matches the reference very closely.'',
              suggestions := [],
              grammarErrors := [],
              grammarCorrect := True \<rparr>"
    using correctScoreIfSimilar_boost [of ?r "''I like tea''"] h sim cr by simp
  then have a: "correctScoreIfSimilar ''I like tea'' ?r
       = \<lparr> grammarCorrect = True, grammarErrors = [], isCorrect = True, score = 95,
           feedback = ''Excellent! Your translation matches the reference very closely.'',
           suggestions = [], referenceTranslation = ''I like tea.'' \<rparr>"
    unfolding cr by (simp add: sample_judgment_def)
  have b: "correctScoreIfSimilar ''I like tea'' (sample_judgment\<lparr>referenceTranslation := []\<rparr>)
       = correctedResult ''I like tea'' (sample_judgment\<lparr>referenceTranslation := []\<rparr>)"
    using correctScoreIfSimilar_boost [of "sample_judgment\<lparr>referenceTranslation := []\<rparr>" "''I like tea''"]
    by simp
  from sim cr a b show ?thesis by blast
qed

text \<open>
  The claim as stated fails: the evaluator's score 92 with a similarity of 100 stays 92,
  below 95, and its grammar error and its suggestion stay.
\<close>

theorem correctScoreIfSimilar_counterexample:
  "calculateSimilarity ''I like tea'' (referenceTranslation sample_judgment) = 100
   \<and> correctScoreIfSimilar ''I like tea'' sample_judgment = sample_judgment
   \<and> TranslationCheckResult.score sample_judgment = 92
   \<and> suggestions sample_judgment = [''Add an article'']
   \<and> length (grammarErrors sample_judgment) = 1"
proof -
  have ref: "referenceTranslation sample_judgment = ''I like tea.''"
    by (simp add: sample_judgment_def)
  have sim: "calculateSimilarity ''I like tea'' (referenceTranslation sample_judgment) = 100"
    by (simp only: ref sim_100)
  have same: "correctedResult ''I like tea'' sample_judgment = sample_judgment"
    using sample_judgment_corrected [of 92] by (simp add: sample_judgment_def)
  have "correctScoreIfSimilar ''I like tea'' sample_judgment = sample_judgment"
    unfolding correctScoreIfSimilar_def Let_def same sim
    by (simp add: sample_judgment_def)
  with sim show ?thesis by (simp add: sample_judgment_def)
qed

subsection \<open>A failing provider\<close>

lemma parse_fallback_when_fails:
  "call_fails P (Text s) \<Longrightarrow> parseJSONResponse P s = parse_fallback"
  by (auto simp: call_fails_def parseJSONResponse_def split: option.splits)

lemma read_reply_when_fails:
  "call_fails P r \<Longrightarrow> (\<exists>e. read_reply P r = Inl e) \<or> read_reply P r = Inr parse_fallback"
  by (cases r) (auto simp: read_reply_def parse_fallback_when_fails)

lemma parse_fallback_invalid: "\<not> hasValidReference vs vw parse_fallback"
  by (simp add: hasValidReference_def parse_fallback_def)

lemma ollama_attempts_when_fail:
  assumes "\<forall>n. attempt \<le> n \<and> n < attempt + left \<longrightarrow> call_fails P (fetch n)"
    and "prev = None \<or> prev = Some parse_fallback"
  shows "(\<exists>e. ollama_attempts fetch P vs vw attempt left prev = Inl e)
       \<or> ollama_attempts fetch P vs vw attempt left prev = Inr parse_fallback"
  using assms
proof (induction left arbitrary: attempt prev)
  case 0
  then show ?case by (auto simp: parse_fallback_def)
next
  case (Suc left)
  from Suc.prems(1) have "call_fails P (fetch attempt)" by simp
  from read_reply_when_fails [OF this]
  show ?case
  proof
    assume "\<exists>e. read_reply P (fetch attempt) = Inl e"
    then show ?thesis by auto
  next
    assume r: "read_reply P (fetch attempt) = Inr parse_fallback"
    have "\<forall>n. attempt + 1 \<le> n \<and> n < attempt + 1 + left \<longrightarrow> call_fails P (fetch n)"
      using Suc.prems(1) by simp
    then have "(\<exists>e. ollama_attempts fetch P vs vw (attempt + 1) left (Some parse_fallback) = Inl e)
       \<or> ollama_attempts fetch P vs vw (attempt + 1) left (Some parse_fallback) = Inr parse_fallback"
      by (rule Suc.IH) simp
    then show ?thesis by (simp add: r parse_fallback_invalid)
  qed
qed

lemma correctScoreIfSimilar_parse_fallback:
  "correctScoreIfSimilar u parse_fallback = parse_fallback"
  by (simp add: correctScoreIfSimilar_def correctedResult_def parse_fallback_def
      filterContradictorySuggestions_def filterContradictoryGrammarErrors_def)

text \<open>
  C9. \<^verbatim>\<open>checkTranslation\<close> returns a result for every input: each throw of the providers
  is a value that its \<^verbatim>\<open>catch\<close> turns into a result. When the call of the configured
  provider fails totally, that is the provider is OpenAI and the API key is missing, or
  every call it makes (the first for OpenAI, the first three for Ollama) ends in a network
  error, a response that is not OK, an unreadable body or a text that cannot be parsed,
  the result has score \<open>-1\<close>, \<open>isCorrect\<close> true, and empty grammar errors, suggestions and
  reference translation.
\<close>

theorem checkTranslation_degrades:
  assumes "(LLM_PROVIDER cfg = openai
             \<and> (OPENAI_API_KEY cfg = None \<or> OPENAI_API_KEY cfg = Some []))
           \<or> (\<forall>n. 1 \<le> n \<and> n \<le> MAX_OLLAMA_RETRIES \<longrightarrow> call_fails JSON_parse (fetch n))"
  shows "TranslationCheckResult.score (checkTranslation cfg fetch JSON_parse vs u vw) = - 1
       \<and> TranslationCheckResult.isCorrect (checkTranslation cfg fetch JSON_parse vs u vw)
       \<and> grammarErrors (checkTranslation cfg fetch JSON_parse vs u vw) = []
       \<and> suggestions (checkTranslation cfg fetch JSON_parse vs u vw) = []
       \<and> referenceTranslation (checkTranslation cfg fetch JSON_parse vs u vw) = []"
proof -
  let ?call = "if LLM_PROVIDER cfg = openai
            then checkWithOpenAI cfg fetch JSON_parse vs u vw
            else checkWithOllama fetch JSON_parse vs u vw"
  have "(\<exists>e. ?call = Inl e) \<or> ?call = Inr parse_fallback"
    using assms
  proof
    assume "LLM_PROVIDER cfg = openai
             \<and> (OPENAI_API_KEY cfg = None \<or> OPENAI_API_KEY cfg = Some [])"
    then show ?thesis by (auto simp: checkWithOpenAI_def)
  next
    assume all: "\<forall>n. 1 \<le> n \<and> n \<le> MAX_OLLAMA_RETRIES \<longrightarrow> call_fails JSON_parse (fetch n)"
    show ?thesis
    proof (cases "LLM_PROVIDER cfg = openai")
      case True
      from all have "call_fails JSON_parse (fetch 1)" by (simp add: MAX_OLLAMA_RETRIES_def)
      from read_reply_when_fails [OF this] True show ?thesis
        by (auto simp: checkWithOpenAI_def)
    next
      case False
      from all have "\<forall>n. 1 \<le> n \<and> n < 1 + MAX_OLLAMA_RETRIES \<longrightarrow> call_fails JSON_parse (fetch n)"
        by simp
      from ollama_attempts_when_fail [OF this, of None vs vw] False
      show ?thesis by (simp add: checkWithOllama_def)
    qed
  qed
  then show ?thesis
  proof
    assume "\<exists>e. ?call = Inl e"
    then obtain e where "?call = Inl e" ..
    then show ?thesis by (simp add: checkTranslation_def)
  next
    assume "?call = Inr parse_fallback"
    then have "checkTranslation cfg fetch JSON_parse vs u vw = parse_fallback"
      by (simp add: checkTranslation_def correctScoreIfSimilar_parse_fallback)
    then show ?thesis by (simp add: parse_fallback_def)
  qed
qed

theorem checkTranslation_degrades_witness:
  "call_fails (\<lambda>t. None) (Text ''I cannot say'')
   \<and> call_fails (\<lambda>t. None) NonText
   \<and> call_fails (\<lambda>t. None) (HttpError 503)
   \<and> checkTranslation \<lparr> LLM_PROVIDER = ollama, OPENAI_API_KEY = None \<rparr>
        (\<lambda>n. if n = 1 then Text ''I cannot say'' else if n = 2 then NonText else HttpError 503)
        (\<lambda>t. None) ''Toi thich tra'' ''I like tea'' ''tea''
      = \<lparr> grammarCorrect = True, grammarErrors = [], isCorrect = True, score = - 1,
          feedback = ''Translation check unavailable (ollama)'',
          suggestions = [], referenceTranslation = [] \<rparr>
   \<and> TranslationCheckResult.score
        (checkTranslation \<lparr> LLM_PROVIDER = openai, OPENAI_API_KEY = None \<rparr>
           (\<lambda>n. Text ''{}'') (\<lambda>t. Some (JObj [])) ''Toi thich tra'' ''I like tea'' ''tea'')
      = - 1"
proof -
  let ?fetch = "\<lambda>n::nat. if n = 1 then Text ''I cannot say'' else if n = 2 then NonText else HttpError 503"
  let ?cfg = "\<lparr> LLM_PROVIDER = ollama, OPENAI_API_KEY = None \<rparr>"
  have f: "call_fails (\<lambda>t. None) (Text ''I cannot say'')" "call_fails (\<lambda>t. None) NonText"
    "call_fails (\<lambda>t. None) (HttpError 503)"
    by (simp_all add: call_fails_def matchBraces_def)
  then have all: "\<forall>n. 1 \<le> n \<and> n \<le> MAX_OLLAMA_RETRIES \<longrightarrow> call_fails (\<lambda>t. None) (?fetch n)"
    by simp
  have p: "TranslationCheckResult.score (checkTranslation ?cfg ?fetch (\<lambda>t. None)
      ''Toi thich tra'' ''I like tea'' ''tea'') = - 1"
    using checkTranslation_degrades [of ?cfg "\<lambda>t. None" ?fetch] all by blast
  have r: "checkTranslation ?cfg ?fetch (\<lambda>t. None) ''Toi thich tra'' ''I like tea'' ''tea''
      = \<lparr> grammarCorrect = True, grammarErrors = [], isCorrect = True, score = - 1,
          feedback = ''Translation check unavailable (ollama)'',
          suggestions = [], referenceTranslation = [] \<rparr>"
    by (simp add: checkTranslation_def checkWithOllama_def MAX_OLLAMA_RETRIES_def
        numeral_3_eq_3 read_reply_def parseJSONResponse_def matchBraces_def
        parse_fallback_invalid provider_name_def)
  have k: "TranslationCheckResult.score
        (checkTranslation \<lparr> LLM_PROVIDER = openai, OPENAI_API_KEY = None \<rparr>
           (\<lambda>n. Text ''{}'') (\<lambda>t. Some (JObj [])) ''Toi thich tra'' ''I like tea'' ''tea'')
      = - 1"
    using checkTranslation_degrades
      [of "\<lparr> LLM_PROVIDER = openai, OPENAI_API_KEY = None \<rparr>" "\<lambda>t. Some (JObj [])" "\<lambda>n. Text ''{}''"]
    by simp
  from f p r k show ?thesis by blast
qed

end
